theory Spec2Isabelle
  imports Complex_Main
begin

section \<open>JavaScript numbers\<close>

text \<open>
  Every quantity of the dashboard (shares, prices, capital, returns) has the TypeScript
  type \<^verbatim>\<open>number\<close>, an IEEE 754 double. The model keeps the special values of that type
  (NaN, the two infinities, the negative zero) and the rules by which the operators
  produce them, because the guards the pages do or do not write decide exactly when these
  values appear. A finite value is the real it denotes, and every arithmetic operator
  rounds its exact result to the nearest double (a tie to the even significand), with
  overflow to an infinity and underflow to a zero. \<open>Fin 0\<close> is the positive zero.
\<close>

datatype number = Fin real | NegZero | PosInf | NegInf | NaN

fun val :: "number \<Rightarrow> real" where
  "val (Fin r) = r"
| "val NegZero = 0"
| "val PosInf = 0"
| "val NegInf = 0"
| "val NaN = 0"

text \<open>The sign bit.\<close>

fun negative :: "number \<Rightarrow> bool" where
  "negative (Fin r) = (r < 0)"
| "negative NegZero = True"
| "negative PosInf = False"
| "negative NegInf = True"
| "negative NaN = False"

fun is_finite :: "number \<Rightarrow> bool" where
  "is_finite (Fin r) = True"
| "is_finite NegZero = True"
| "is_finite PosInf = False"
| "is_finite NegInf = False"
| "is_finite NaN = False"

definition is_zero :: "number \<Rightarrow> bool" where
  "is_zero x = (x = Fin 0 \<or> x = NegZero)"

definition is_inf :: "number \<Rightarrow> bool" where
  "is_inf x = (x = PosInf \<or> x = NegInf)"

definition signed_zero :: "bool \<Rightarrow> number" where
  "signed_zero s = (if s then NegZero else Fin 0)"

definition signed_inf :: "bool \<Rightarrow> number" where
  "signed_inf s = (if s then NegInf else PosInf)"

text \<open>
  A finite result \<open>r\<close> that needs no rounding (an integer that \<^verbatim>\<open>Math.round\<close> or
  \<^verbatim>\<open>Math.floor\<close> makes of a double); its sign, when it is a zero, is \<open>s\<close>.
\<close>

definition fin :: "bool \<Rightarrow> real \<Rightarrow> number" where
  "fin s r = (if r = 0 then signed_zero s else Fin r)"

text \<open>
  Rounding to the double format (53 bits of significand, exponents from -1022 to 1023).
  \<open>pow2 k\<close> is the power of two with the integer exponent \<open>k\<close>, and \<open>binade x\<close> the
  exponent \<open>e\<close> with \<open>pow2 e \<le> \<bar>x\<bar> < pow2 (e + 1)\<close>. The doubles around \<open>x\<close> are the
  multiples of the quantum \<open>pow2 (e - 52)\<close>, where \<open>e\<close> is at least -1022 (the subnormal
  numbers share the quantum \<open>pow2 (- 1074)\<close>); \<open>nearest_double x\<close> is the multiple nearest to
  \<open>x\<close>. \<open>to_number s x\<close> is the number that an operator returns for the exact result
  \<open>x\<close>, where \<open>s\<close> is the sign that the operator gives to an exact zero.
\<close>

definition pow2 :: "int \<Rightarrow> real" where
  "pow2 k = (if 0 \<le> k then 2 ^ nat k else 1 / 2 ^ nat (- k))"

definition binade :: "real \<Rightarrow> int" where
  "binade x = \<lfloor>log 2 \<bar>x\<bar>\<rfloor>"

definition round_half_even :: "real \<Rightarrow> int" where
  "round_half_even x =
     (let n = \<lfloor>x\<rfloor>
      in if x - of_int n < 1 / 2 then n
         else if 1 / 2 < x - of_int n then n + 1
         else if even n then n else n + 1)"

definition nearest_double :: "real \<Rightarrow> real" where
  "nearest_double x =
     (let q = pow2 (max (binade x) (- 1022) - 52)
      in of_int (round_half_even (x / q)) * q)"

definition to_number :: "bool \<Rightarrow> real \<Rightarrow> number" where
  "to_number s x =
     (if x = 0 then signed_zero s
      else (let y = nearest_double x
            in if 2 ^ 1024 \<le> \<bar>y\<bar> then signed_inf (x < 0)
               else if y = 0 then signed_zero (x < 0)
               else Fin y))"

text \<open>
  A decimal literal of the source that is not a double itself, such as \<^verbatim>\<open>0.04\<close>, denotes
  the nearest double.
\<close>

definition lit :: "real \<Rightarrow> number" where
  "lit x = to_number False x"

text \<open>The operators \<^verbatim>\<open>*\<close>, \<^verbatim>\<open>+\<close>, unary and binary \<^verbatim>\<open>-\<close>, \<^verbatim>\<open>/\<close> on numbers.\<close>

definition num_mul :: "number \<Rightarrow> number \<Rightarrow> number" where
  "num_mul x y =
     (if x = NaN \<or> y = NaN then NaN
      else if (is_inf x \<and> is_zero y) \<or> (is_zero x \<and> is_inf y) then NaN
      else if is_inf x \<or> is_inf y then signed_inf (negative x \<noteq> negative y)
      else to_number (negative x \<noteq> negative y) (val x * val y))"

definition num_add :: "number \<Rightarrow> number \<Rightarrow> number" where
  "num_add x y =
     (if x = NaN \<or> y = NaN then NaN
      else if is_inf x \<and> is_inf y then (if x = y then x else NaN)
      else if is_inf x then x
      else if is_inf y then y
      else to_number (negative x \<and> negative y) (val x + val y))"

fun num_neg :: "number \<Rightarrow> number" where
  "num_neg (Fin r) = (if r = 0 then NegZero else Fin (- r))"
| "num_neg NegZero = Fin 0"
| "num_neg PosInf = NegInf"
| "num_neg NegInf = PosInf"
| "num_neg NaN = NaN"

definition num_sub :: "number \<Rightarrow> number \<Rightarrow> number" where
  "num_sub x y = num_add x (num_neg y)"

definition num_div :: "number \<Rightarrow> number \<Rightarrow> number" where
  "num_div x y =
     (if x = NaN \<or> y = NaN then NaN
      else if (is_inf x \<and> is_inf y) \<or> (is_zero x \<and> is_zero y) then NaN
      else if is_inf x then signed_inf (negative x \<noteq> negative y)
      else if is_inf y then signed_zero (negative x \<noteq> negative y)
      else if is_zero y then signed_inf (negative x \<noteq> negative y)
      else to_number (negative x \<noteq> negative y) (val x / val y))"

text \<open>
  The comparisons \<^verbatim>\<open><\<close>, \<^verbatim>\<open>>\<close>, \<^verbatim>\<open><=\<close> and \<^verbatim>\<open>===\<close>: all are false when an
  operand is NaN, and the two zeros are equal.
\<close>

definition num_lt :: "number \<Rightarrow> number \<Rightarrow> bool" where
  "num_lt x y =
     (if x = NaN \<or> y = NaN then False
      else if x = PosInf \<or> y = NegInf then False
      else if x = NegInf \<or> y = PosInf then True
      else val x < val y)"

definition num_gt :: "number \<Rightarrow> number \<Rightarrow> bool" where
  "num_gt x y = num_lt y x"

definition num_eq :: "number \<Rightarrow> number \<Rightarrow> bool" where
  "num_eq x y = (x \<noteq> NaN \<and> y \<noteq> NaN \<and> (x = y \<or> (is_zero x \<and> is_zero y)))"

definition num_le :: "number \<Rightarrow> number \<Rightarrow> bool" where
  "num_le x y = (num_lt x y \<or> num_eq x y)"


text \<open>
  \<^verbatim>\<open>Math.round\<close> rounds to the nearest integer, a tie towards plus infinity, and
  \<^verbatim>\<open>Math.floor\<close> rounds down; a zero result keeps the sign of the argument. Both are
  exact: the integer they make of a double is a double.
\<close>

definition Math_round :: "number \<Rightarrow> number" where
  "Math_round x = (if is_finite x then fin (negative x) (of_int \<lfloor>val x + 1 / 2\<rfloor>) else x)"

definition Math_floor :: "number \<Rightarrow> number" where
  "Math_floor x = (if is_finite x then fin (negative x) (of_int \<lfloor>val x\<rfloor>) else x)"

text \<open>
  \<^verbatim>\<open>Math.pow\<close>, case by case as the language standard lists them. On finite non-zero
  operands the standard asks for an implementation-approximated value of the power: the
  model takes the approximation \<open>pw\<close> that the engine computes as a parameter, and rounds
  it to a number.
\<close>

definition odd_integer :: "number \<Rightarrow> bool" where
  "odd_integer e = (is_finite e \<and> of_int \<lfloor>val e\<rfloor> = val e \<and> odd \<lfloor>val e\<rfloor>)"

definition is_integer :: "number \<Rightarrow> bool" where
  "is_integer e = (is_finite e \<and> of_int \<lfloor>val e\<rfloor> = val e)"

definition Math_pow :: "(real \<Rightarrow> real \<Rightarrow> real) \<Rightarrow> number \<Rightarrow> number \<Rightarrow> number" where
  "Math_pow pw b e =
     (if e = NaN then NaN
      else if is_zero e then Fin 1
      else if b = NaN then NaN
      else if b = PosInf then (if negative e then Fin 0 else PosInf)
      else if b = NegInf then
        (if negative e then signed_zero (odd_integer e) else signed_inf (odd_integer e))
      else if b = Fin 0 then (if negative e then PosInf else Fin 0)
      else if b = NegZero then
        (if negative e then signed_inf (odd_integer e) else signed_zero (odd_integer e))
      else if e = PosInf then
        (if \<bar>val b\<bar> > 1 then PosInf else if \<bar>val b\<bar> = 1 then NaN else Fin 0)
      else if e = NegInf then
        (if \<bar>val b\<bar> > 1 then Fin 0 else if \<bar>val b\<bar> = 1 then NaN else PosInf)
      else if val b < 0 \<and> \<not> is_integer e then NaN
      else to_number (val b < 0 \<and> odd_integer e) (pw (val b) (val e)))"

text \<open>The approximation that returns the power itself, which \<open>Math_pow\<close> then rounds correctly.\<close>

definition exact_pow :: "real \<Rightarrow> real \<Rightarrow> real" where
  "exact_pow b e = (if b < 0 then (if odd \<lfloor>e\<rfloor> then - 1 else 1) * (\<bar>b\<bar> powr e) else b powr e)"

section \<open>Portfolio valuation\<close>

text \<open>
  A position as the Portfolio page reads it (interface \<^verbatim>\<open>PortfolioPosition\<close>); the
  field \<^verbatim>\<open>id\<close> is \<open>pos_id\<close> and the stock's \<^verbatim>\<open>id\<close> is \<open>stock_id\<close> here. The
  Watchlist page joins the same table with more columns of the stock, none of which its
  computations read.
\<close>

record stock =
  stock_id :: string
  ticker :: string
  company_name :: string
  current_price :: number
  tier :: string
  sector :: string

record position =
  pos_id :: string
  shares :: number
  avg_cost :: number
  stock :: stock

record portfolio_metrics =
  totalValue :: number
  totalCost :: number
  totalGainLoss :: number
  totalGainLossPercent :: number

text \<open>\<^verbatim>\<open>calculateMetrics\<close> of the Portfolio page: two reductions from 0, then the guarded ratio.\<close>

definition calculateMetrics :: "position list \<Rightarrow> portfolio_metrics" where
  "calculateMetrics positions =
     (let totalValue = foldl (\<lambda>sum pos. num_add sum (num_mul (shares pos) (current_price (stock pos))))
                             (Fin 0) positions;
          totalCost = foldl (\<lambda>sum pos. num_add sum (num_mul (shares pos) (avg_cost pos)))
                            (Fin 0) positions;
          totalGainLoss = num_sub totalValue totalCost;
          totalGainLossPercent =
            (if num_gt totalCost (Fin 0)
             then num_mul (num_div totalGainLoss totalCost) (Fin 100) else Fin 0)
      in \<lparr>totalValue = totalValue, totalCost = totalCost,
          totalGainLoss = totalGainLoss, totalGainLossPercent = totalGainLossPercent\<rparr>)"

text \<open>The same summary on the Watchlist page, and its two counters.\<close>

definition calculatePortfolioValue :: "position list \<Rightarrow> number" where
  "calculatePortfolioValue portfolioStocks =
     foldl (\<lambda>total position. num_add total (num_mul (shares position) (current_price (stock position))))
           (Fin 0) portfolioStocks"

definition calculatePortfolioCost :: "position list \<Rightarrow> number" where
  "calculatePortfolioCost portfolioStocks =
     foldl (\<lambda>total position. num_add total (num_mul (shares position) (avg_cost position)))
           (Fin 0) portfolioStocks"

definition portfolioPnL :: "position list \<Rightarrow> number" where
  "portfolioPnL portfolioStocks =
     num_sub (calculatePortfolioValue portfolioStocks) (calculatePortfolioCost portfolioStocks)"

definition portfolioReturn :: "position list \<Rightarrow> number" where
  "portfolioReturn portfolioStocks =
     (if num_gt (calculatePortfolioCost portfolioStocks) (Fin 0)
      then num_mul (num_div (portfolioPnL portfolioStocks) (calculatePortfolioCost portfolioStocks)) (Fin 100)
      else Fin 0)"

definition winners :: "position list \<Rightarrow> nat" where
  "winners portfolioStocks =
     length (filter (\<lambda>p. num_gt (current_price (stock p)) (avg_cost p)) portfolioStocks)"

definition losers :: "position list \<Rightarrow> nat" where
  "losers portfolioStocks =
     length (filter (\<lambda>p. num_lt (current_price (stock p)) (avg_cost p)) portfolioStocks)"

text \<open>
  The specification names five validation errors. The pages declare none of them and
  contain no \<^verbatim>\<open>throw\<close> of their own; the one exception a modelled function
  can raise is the \<^verbatim>\<open>TypeError\<close> of reading a property of \<^verbatim>\<open>undefined\<close>. A
  computation's completion is a value of \<open>error + 'a\<close>, \<open>Inr\<close> the normal one.
\<close>

datatype error =
  InvalidQuote | DivisionByZero | InvalidDateRange | InvalidCapital | NoStocksSelected | TypeError

text \<open>
  The row of one position: the body of the callback of \<^verbatim>\<open>positions.map\<close> on the
  Portfolio page. It has no guard and no failing operation, so it always completes
  normally. The callback of \<^verbatim>\<open>portfolioStocks.map\<close> on the Watchlist page computes the
  same four expressions under the names marketValue, costBasis, pnl and returnPercent.
\<close>

record position_row =
  currentValue :: number
  costBasis :: number
  gainLoss :: number
  gainLossPercent :: number

definition renderPosition :: "position \<Rightarrow> error + position_row" where
  "renderPosition position =
     (let currentValue = num_mul (shares position) (current_price (stock position));
          costBasis = num_mul (shares position) (avg_cost position);
          gainLoss = num_sub currentValue costBasis;
          gainLossPercent = num_mul (num_div gainLoss costBasis) (Fin 100)
      in Inr \<lparr>currentValue = currentValue, costBasis = costBasis,
              gainLoss = gainLoss, gainLossPercent = gainLossPercent\<rparr>)"

definition renderHolding :: "position \<Rightarrow> error + position_row" where
  "renderHolding position =
     (let marketValue = num_mul (shares position) (current_price (stock position));
          costBasis = num_mul (shares position) (avg_cost position);
          pnl = num_sub marketValue costBasis;
          returnPercent = num_mul (num_div pnl costBasis) (Fin 100)
      in Inr \<lparr>currentValue = marketValue, costBasis = costBasis,
              gainLoss = pnl, gainLossPercent = returnPercent\<rparr>)"

text \<open>The inputs the specification speaks of: every numeric field is a finite number.\<close>

definition finite_position :: "position \<Rightarrow> bool" where
  "finite_position p =
     (is_finite (shares p) \<and> is_finite (avg_cost p) \<and> is_finite (current_price (stock p)))"

text \<open>
  The quantities of the specification in the arithmetic of the program: the market value
  and the cost basis of one position, and the sum of a list of numbers, added from 0 in
  the order of the list.
\<close>

definition market_value :: "position \<Rightarrow> number" where
  "market_value p = num_mul (shares p) (current_price (stock p))"

definition cost_basis :: "position \<Rightarrow> number" where
  "cost_basis p = num_mul (shares p) (avg_cost p)"

definition sum_in_order :: "number list \<Rightarrow> number" where
  "sum_in_order xs = foldl num_add (Fin 0) xs"

text \<open>A position of the stock GCB with the given shares, average cost and current price.\<close>

definition holding :: "real \<Rightarrow> real \<Rightarrow> real \<Rightarrow> position" where
  "holding sh cost price =
     \<lparr>pos_id = ''p1'', shares = Fin sh, avg_cost = Fin cost,
      stock = \<lparr>stock_id = ''s1'', ticker = ''GCB'', company_name = ''GCB Bank'',
               current_price = Fin price, tier = ''A'', sector = ''Financials''\<rparr>\<rparr>"

section \<open>Price change of a stock\<close>

text \<open>
  \<^verbatim>\<open>getChangePercentage\<close> of the stock table and of the stock detail page, and the
  same expression written inline in \<^verbatim>\<open>MiniPriceChart\<close>.
\<close>

definition getChangePercentage :: "number \<Rightarrow> number \<Rightarrow> number" where
  "getChangePercentage current previous =
     num_mul (num_div (num_sub current previous) previous) (Fin 100)"

definition changePercent :: "number \<Rightarrow> number \<Rightarrow> number" where
  "changePercent currentPrice previousClose =
     num_mul (num_div (num_sub currentPrice previousClose) previousClose) (Fin 100)"

section \<open>Alerts\<close>

text \<open>
  A row of the table \<^verbatim>\<open>alerts\<close>, which is also what the two alert components keep in
  their state (the joined ticker and company name of the stock are left out). The fields
  \<^verbatim>\<open>id\<close>, \<^verbatim>\<open>stock_id\<close>, \<^verbatim>\<open>tier\<close> and \<^verbatim>\<open>price\<close> carry the prefix \<open>alert_\<close> here.
\<close>

record alert =
  alert_id :: string
  alert_stock_id :: string
  user_id :: "string option"
  trigger_type :: string
  alert_tier :: string
  alert_price :: number
  rationale :: string
  is_read :: bool
  is_dismissed :: bool
  created_at :: string

record toast =
  title :: string
  description :: "string option"
  variant :: "string option"

text \<open>
  The state an alert operation works on: the rows stored at the backend, the list the
  component holds (\<^verbatim>\<open>alerts\<close>, set by \<^verbatim>\<open>setAlerts\<close>) and the toasts shown so far.
\<close>

record alerts_state =
  alerts_table :: "alert list"
  alerts :: "alert list"
  alert_toasts :: "toast list"

text \<open>
  \<^verbatim>\<open>supabase.from('alerts').update(change).eq('id', alertId)\<close> for the signed-in user
  \<open>uid\<close>: the row-level policy of the migration lets a user update only the rows whose
  \<^verbatim>\<open>user_id\<close> is the user's own.
\<close>

definition update_alerts ::
  "string option \<Rightarrow> (alert \<Rightarrow> alert) \<Rightarrow> string \<Rightarrow> alert list \<Rightarrow> alert list" where
  "update_alerts uid change alertId rows =
     map (\<lambda>row. if alert_id row = alertId \<and> uid \<noteq> None \<and> user_id row = uid
                then change row else row) rows"

text \<open>
  The two operations of the Alerts page. \<open>failed\<close> says that the backend answered the
  update with an error, in which case it applied nothing and the \<^verbatim>\<open>catch\<close> branch runs.
\<close>

definition Alerts_markAsRead ::
  "string option \<Rightarrow> bool \<Rightarrow> string \<Rightarrow> alerts_state \<Rightarrow> alerts_state" where
  "Alerts_markAsRead uid failed alertId st =
     (if failed
      then st\<lparr>alert_toasts := alert_toasts st @
              [\<lparr>title = ''Error'', description = Some ''Failed to mark alert as read'',
                variant = Some ''destructive''\<rparr>]\<rparr>
      else st\<lparr>alerts_table := update_alerts uid (\<lambda>row. row\<lparr>is_read := True\<rparr>) alertId (alerts_table st),
              alerts := map (\<lambda>alert. if alert_id alert = alertId then alert\<lparr>is_read := True\<rparr> else alert)
                            (alerts st),
              alert_toasts := alert_toasts st @
              [\<lparr>title = ''Alert marked as read'', description = None, variant = None\<rparr>]\<rparr>)"

definition Alerts_dismissAlert ::
  "string option \<Rightarrow> bool \<Rightarrow> string \<Rightarrow> alerts_state \<Rightarrow> alerts_state" where
  "Alerts_dismissAlert uid failed alertId st =
     (if failed
      then st\<lparr>alert_toasts := alert_toasts st @
              [\<lparr>title = ''Error'', description = Some ''Failed to dismiss alert'',
                variant = Some ''destructive''\<rparr>]\<rparr>
      else st\<lparr>alerts_table := update_alerts uid (\<lambda>row. row\<lparr>is_dismissed := True\<rparr>) alertId (alerts_table st),
              alerts := map (\<lambda>alert. if alert_id alert = alertId then alert\<lparr>is_dismissed := True\<rparr> else alert)
                            (alerts st),
              alert_toasts := alert_toasts st @
              [\<lparr>title = ''Alert dismissed'', description = None, variant = None\<rparr>]\<rparr>)"

text \<open>
  The two operations of the component \<^verbatim>\<open>AlertsManager\<close>. Marking as read only logs an
  error to the console; dismissing filters the alert out of the component's list.
\<close>

definition AlertsManager_markAsRead ::
  "string option \<Rightarrow> bool \<Rightarrow> string \<Rightarrow> alerts_state \<Rightarrow> alerts_state" where
  "AlertsManager_markAsRead uid failed alertId st =
     (if failed then st
      else st\<lparr>alerts_table := update_alerts uid (\<lambda>row. row\<lparr>is_read := True\<rparr>) alertId (alerts_table st),
              alerts := map (\<lambda>alert. if alert_id alert = alertId then alert\<lparr>is_read := True\<rparr> else alert)
                            (alerts st)\<rparr>)"

definition AlertsManager_dismissAlert ::
  "string option \<Rightarrow> bool \<Rightarrow> string \<Rightarrow> alerts_state \<Rightarrow> alerts_state" where
  "AlertsManager_dismissAlert uid failed alertId st =
     (if failed
      then st\<lparr>alert_toasts := alert_toasts st @
              [\<lparr>title = ''Error'', description = Some ''Failed to dismiss alert'',
                variant = Some ''destructive''\<rparr>]\<rparr>
      else st\<lparr>alerts_table := update_alerts uid (\<lambda>row. row\<lparr>is_dismissed := True\<rparr>) alertId (alerts_table st),
              alerts := filter (\<lambda>alert. alert_id alert \<noteq> alertId) (alerts st),
              alert_toasts := alert_toasts st @
              [\<lparr>title = ''Alert dismissed'',
                description = Some ''Alert has been removed from your list'', variant = None\<rparr>]\<rparr>)"

text \<open>
  The frame of a flag update from the list \<open>xs\<close> to the list \<open>ys\<close>: the same length, and
  at every place either the same alert, or an alert with the given id to which exactly
  \<open>change\<close> was applied.
\<close>

definition only_changed :: "(alert \<Rightarrow> alert) \<Rightarrow> string \<Rightarrow> alert list \<Rightarrow> alert list \<Rightarrow> bool" where
  "only_changed change alertId xs ys =
     (length ys = length xs \<and>
      (\<forall>i < length xs. ys ! i = xs ! i \<or> (alert_id (xs ! i) = alertId \<and> ys ! i = change (xs ! i))))"

text \<open>An alert of user u1 for the tests below.\<close>

definition example_alert :: "string \<Rightarrow> alert" where
  "example_alert i =
     \<lparr>alert_id = i, alert_stock_id = ''s1'', user_id = Some ''u1'',
      trigger_type = ''Volume Spike'', alert_tier = ''A'', alert_price = Fin 5,
      rationale = ''volume'', is_read = False, is_dismissed = False,
      created_at = ''2025-09-03''\<rparr>"

definition example_alerts :: alerts_state where
  "example_alerts =
     \<lparr>alerts_table = [example_alert ''a1'', example_alert ''a2''],
      alerts = [example_alert ''a1'', example_alert ''a2''], alert_toasts = []\<rparr>"

section \<open>Backtests\<close>

text \<open>
  The parameters of a backtest (interface \<^verbatim>\<open>BacktestParams\<close>). The two dates are strings
  in the page, read only through \<^verbatim>\<open>new Date(s).getTime()\<close>; the model holds that time
  value: a whole number of milliseconds, or \<open>None\<close> for the NaN of a string that is no
  date. The number of days between two dates is the floor of the quotient of their
  difference by the milliseconds of a day: for the dates that the form's date fields
  produce (midnights of years of four digits) the difference is a multiple of a day below
  \<open>2 ^ 53\<close>, so the page's subtraction and division in doubles are exact.
\<close>

record risk_management =
  stopLoss :: number
  takeProfit :: number
  maxPositionSize :: number

record BacktestParams =
  name :: string
  startDate :: "int option"
  endDate :: "int option"
  initialCapital :: number
  strategy :: string
  stocks :: "string list"
  riskManagement :: risk_management
  rebalanceFrequency :: string

text \<open>
  A point of the performance series; \<open>date\<close> is the time value of the point's date, which
  the page formats as an ISO day.
\<close>

record point =
  date :: int
  portfolioValue :: number
  benchmark :: number

text \<open>
  The metrics of a result. The page stores four of them through \<^verbatim>\<open>toFixed\<close>, as decimal
  strings; the model keeps the numbers that are formatted.
\<close>

record backtest_metrics =
  totalReturn :: number
  annualizedReturn :: number
  sharpeRatio :: number
  maxDrawdown :: number
  winRate :: number
  totalTrades :: number
  finalValue :: number

record backtest_results =
  performanceData :: "point list"
  metrics :: backtest_metrics

text \<open>
  The random source is the sequence of the values that the successive calls of
  \<^verbatim>\<open>Math.random\<close> return; \<open>k\<close> counts the calls made so far and \<open>pv\<close> is the
  variable \<^verbatim>\<open>portfolioValue\<close>. \<open>pw\<close> is the engine's approximation of the power, which
  \<^verbatim>\<open>Math.pow\<close> uses. The loop of
  \<^verbatim>\<open>generateMockBacktestResults\<close> runs over \<open>i = 0, 7, 14, ...\<close> while \<open>i \<le> days\<close>.
\<close>

function performanceLoop ::
  "(real \<Rightarrow> real \<Rightarrow> real) \<Rightarrow> (nat \<Rightarrow> real) \<Rightarrow> int \<Rightarrow> number \<Rightarrow> int \<Rightarrow> int \<Rightarrow> nat \<Rightarrow> number
     \<Rightarrow> point list" where
  "performanceLoop pw rnd start capital days i k pv =
     (if i \<le> days
      then (let randomReturn = num_mul (num_sub (Fin (rnd k)) (Fin 0.5)) (lit 0.04);
                pv' = num_mul pv (num_add (Fin 1) randomReturn)
            in \<lparr>date = start + i * 24 * 60 * 60 * 1000,
                portfolioValue = Math_round pv',
                benchmark = Math_round (num_mul capital
                              (Math_pow pw (lit 1.08) (num_div (Fin (of_int i)) (Fin 365))))\<rparr>
               # performanceLoop pw rnd start capital days (i + 7) (Suc k) pv')
      else [])"
  by pat_completeness auto
termination
  by (relation "measure (\<lambda>(pw, rnd, start, capital, days, i, k, pv). nat (days + 1 - i))") auto

declare performanceLoop.simps [simp del]

text \<open>
  Names for the proofs: the benchmark that the loop computes for the loop variable
  \<open>i\<close>, and the list of the values that the loop variable takes from \<open>i\<close> on.
\<close>

definition benchmark_at :: "(real \<Rightarrow> real \<Rightarrow> real) \<Rightarrow> number \<Rightarrow> int \<Rightarrow> number" where
  "benchmark_at pw capital i =
     Math_round (num_mul capital (Math_pow pw (lit 1.08) (num_div (Fin (of_int i)) (Fin 365))))"



text \<open>
  \<^verbatim>\<open>generateMockBacktestResults\<close>. When the loop produced no point, the last element of
  the series is \<^verbatim>\<open>undefined\<close> and reading its \<^verbatim>\<open>portfolioValue\<close> raises a TypeError.
\<close>

definition generateMockBacktestResults ::
  "(real \<Rightarrow> real \<Rightarrow> real) \<Rightarrow> (nat \<Rightarrow> real) \<Rightarrow> BacktestParams \<Rightarrow> error + backtest_results" where
  "generateMockBacktestResults pw rnd params =
     (let days = (case (startDate params, endDate params) of
                    (Some s, Some e) \<Rightarrow> Some ((e - s) div (1000 * 60 * 60 * 24))
                  | _ \<Rightarrow> None);
          performanceData = (case (startDate params, days) of
                    (Some s, Some d) \<Rightarrow>
                      performanceLoop pw rnd s (initialCapital params) d 0 0 (initialCapital params)
                  | _ \<Rightarrow> [])
      in if performanceData = [] then Inl TypeError
         else
           (let finalValue = portfolioValue (last performanceData);
                totalReturn = num_mul (num_div (num_sub finalValue (initialCapital params))
                                               (initialCapital params)) (Fin 100);
                annualizedReturn =
                  num_mul (num_sub (Math_pow pw (num_div finalValue (initialCapital params))
                                             (num_div (Fin 365)
                                                (case days of Some d \<Rightarrow> Fin (of_int d) | None \<Rightarrow> NaN)))
                                   (Fin 1)) (Fin 100);
                k = length performanceData
            in Inr \<lparr>performanceData = performanceData,
                    metrics =
                      \<lparr>totalReturn = totalReturn,
                       annualizedReturn = annualizedReturn,
                       sharpeRatio = num_add (lit 1.2) (num_mul (Fin (rnd k)) (lit 0.8)),
                       maxDrawdown = num_add (num_mul (Fin (rnd (k + 1))) (Fin 15)) (Fin 5),
                       winRate = num_add (Fin 55) (num_mul (Fin (rnd (k + 2))) (Fin 20)),
                       totalTrades = num_add (Math_floor (num_mul (Fin (rnd (k + 3))) (Fin 50))) (Fin 20),
                       finalValue = Math_round finalValue\<rparr>\<rparr>))"


text \<open>
  A row of the table \<^verbatim>\<open>backtests\<close>, and the state of the Backtesting page: the stored
  rows, the \<^verbatim>\<open>loading\<close> flag, the toasts shown, and the callbacks handed to
  \<^verbatim>\<open>setTimeout\<close> that have not run yet (the id of the inserted row and the parameters
  the callback captured).
\<close>

record backtest_row =
  bt_id :: string
  bt_user_id :: string
  bt_name :: string
  parameters :: BacktestParams
  status :: string
  results :: "backtest_results option"
  completed_at :: "string option"

record backtesting_state =
  backtests_table :: "backtest_row list"
  loading :: bool
  toasts :: "toast list"
  timeouts :: "(string \<times> BacktestParams) list"

definition toast_name_required :: toast where
  "toast_name_required =
     \<lparr>title = ''Error'', description = Some ''Please provide a name for your backtest'',
      variant = Some ''destructive''\<rparr>"

definition toast_no_stocks :: toast where
  "toast_no_stocks =
     \<lparr>title = ''Error'', description = Some ''Please select at least one stock'',
      variant = Some ''destructive''\<rparr>"

definition toast_start_failed :: toast where
  "toast_start_failed =
     \<lparr>title = ''Error'', description = Some ''Failed to start backtest'',
      variant = Some ''destructive''\<rparr>"

definition toast_started :: "string \<Rightarrow> toast" where
  "toast_started n =
     \<lparr>title = ''Backtest Started'', description = Some (''Running backtest: '' @ n), variant = None\<rparr>"

definition toast_complete :: "string \<Rightarrow> toast" where
  "toast_complete n =
     \<lparr>title = ''Backtest Complete'', description = Some (n @ '' has finished running''),
      variant = None\<rparr>"

text \<open>
  \<^verbatim>\<open>runBacktest\<close>, up to the point where it has scheduled the simulation. \<open>user\<close> is the id
  of the signed-in user, if any; \<open>inserted\<close> is the answer of the backend to the insert:
  the id of the new row, or \<open>None\<close> for an error. The two guards return before anything is
  written.
\<close>

definition runBacktest ::
  "string option \<Rightarrow> BacktestParams \<Rightarrow> string option \<Rightarrow> backtesting_state \<Rightarrow> backtesting_state" where
  "runBacktest user params inserted st =
     (case user of
        None \<Rightarrow> st\<lparr>toasts := toasts st @ [toast_name_required]\<rparr>
      | Some uid \<Rightarrow>
          if name params = [] then st\<lparr>toasts := toasts st @ [toast_name_required]\<rparr>
          else if length (stocks params) = 0 then st\<lparr>toasts := toasts st @ [toast_no_stocks]\<rparr>
          else
            (case inserted of
               None \<Rightarrow> st\<lparr>loading := False, toasts := toasts st @ [toast_start_failed]\<rparr>
             | Some new_id \<Rightarrow>
                 st\<lparr>backtests_table := backtests_table st @
                      [\<lparr>bt_id = new_id, bt_user_id = uid, bt_name = name params,
                        parameters = params, status = ''running'', results = None,
                        completed_at = None\<rparr>],
                    loading := True,
                    toasts := toasts st @ [toast_started (name params)],
                    timeouts := timeouts st @ [(new_id, params)]\<rparr>))"

text \<open>
  The callback that \<^verbatim>\<open>setTimeout\<close> runs after three seconds, for the scheduled entry
  \<open>(bid, params)\<close>, at the time \<open>now\<close>. An exception inside it (the TypeError of the
  simulation, or the backend's error on the update when \<open>failed\<close>) is caught by nobody:
  the row stays as it is and \<^verbatim>\<open>loading\<close> stays set.
\<close>

definition onTimeout ::
  "(real \<Rightarrow> real \<Rightarrow> real) \<Rightarrow> (nat \<Rightarrow> real) \<Rightarrow> string \<Rightarrow> bool \<Rightarrow> string \<times> BacktestParams
     \<Rightarrow> backtesting_state \<Rightarrow> backtesting_state" where
  "onTimeout pw rnd now failed entry st =
     (let st' = st\<lparr>timeouts := remove1 entry (timeouts st)\<rparr>
      in case generateMockBacktestResults pw rnd (snd entry) of
           Inl e \<Rightarrow> st'
         | Inr mockResults \<Rightarrow>
             if failed then st'
             else st'\<lparr>backtests_table :=
                        map (\<lambda>row. if bt_id row = fst entry
                                   then row\<lparr>status := ''completed'', results := Some mockResults,
                                            completed_at := Some now\<rparr>
                                   else row) (backtests_table st'),
                      loading := False,
                      toasts := toasts st' @ [toast_complete (name (snd entry))]\<rparr>)"

text \<open>
  The parameters the specification calls valid: the end after the start, a positive finite
  capital, at least one stock.
\<close>

definition valid_params :: "BacktestParams \<Rightarrow> bool" where
  "valid_params params =
     ((case (startDate params, endDate params) of
         (Some s, Some e) \<Rightarrow> s < e
       | _ \<Rightarrow> False)
      \<and> is_finite (initialCapital params) \<and> 0 < val (initialCapital params)
      \<and> stocks params \<noteq> [])"

text \<open>
  The default form of the page, for the year 2024 (from 2024-01-01 to 2024-12-31, as time
  values), with a name, one stock and the given capital.
\<close>

definition params_2024 :: "real \<Rightarrow> BacktestParams" where
  "params_2024 capital =
     \<lparr>name = ''demo'', startDate = Some 1704067200000, endDate = Some 1735603200000,
      initialCapital = Fin capital, strategy = ''buy_and_hold'', stocks = [''s1''],
      riskManagement = \<lparr>stopLoss = Fin 10, takeProfit = Fin 20, maxPositionSize = Fin 20\<rparr>,
      rebalanceFrequency = ''monthly''\<rparr>"

text \<open>The same form with the end date equal to the start date, and two forms without stocks.\<close>

definition params_same_day :: BacktestParams where
  "params_same_day =
     \<lparr>name = ''demo'', startDate = Some 1704067200000, endDate = Some 1704067200000,
      initialCapital = Fin 100000, strategy = ''buy_and_hold'', stocks = [''s1''],
      riskManagement = \<lparr>stopLoss = Fin 10, takeProfit = Fin 20, maxPositionSize = Fin 20\<rparr>,
      rebalanceFrequency = ''monthly''\<rparr>"

definition params_no_stocks :: BacktestParams where
  "params_no_stocks =
     \<lparr>name = ''demo'', startDate = Some 1704067200000, endDate = Some 1735603200000,
      initialCapital = Fin 100000, strategy = ''buy_and_hold'', stocks = [],
      riskManagement = \<lparr>stopLoss = Fin 10, takeProfit = Fin 20, maxPositionSize = Fin 20\<rparr>,
      rebalanceFrequency = ''monthly''\<rparr>"

definition params_unnamed_no_stocks :: BacktestParams where
  "params_unnamed_no_stocks =
     \<lparr>name = [], startDate = Some 1704067200000, endDate = Some 1735603200000,
      initialCapital = Fin 100000, strategy = ''buy_and_hold'', stocks = [],
      riskManagement = \<lparr>stopLoss = Fin 10, takeProfit = Fin 20, maxPositionSize = Fin 20\<rparr>,
      rebalanceFrequency = ''monthly''\<rparr>"

text \<open>Three random sources that always return the same value.\<close>

definition draws_low :: "nat \<Rightarrow> real" where
  "draws_low k = 0"

definition draws_mid :: "nat \<Rightarrow> real" where
  "draws_mid k = 1 / 2"


definition empty_page :: backtesting_state where
  "empty_page = \<lparr>backtests_table = [], loading = False, toasts = [], timeouts = []\<rparr>"

section \<open>Properties of the arithmetic\<close>

text \<open>Powers of two, the binade of a real, and rounding to the nearest integer.\<close>

lemma pow2_powr: "pow2 k = 2 powr (of_int k)"
proof (cases "0 \<le> k")
  case True
  then have "(2::real) powr (of_int k) = 2 powr (real (nat k))" by simp
  also have "\<dots> = 2 ^ nat k" by (rule powr_realpow) simp
  finally show ?thesis using True by (simp add: pow2_def)
next
  case False
  then have "(2::real) powr (of_int k) = 2 powr (- real (nat (- k)))" by simp
  also have "\<dots> = 1 / 2 powr (real (nat (- k)))" by (simp add: powr_minus divide_inverse)
  also have "2 powr (real (nat (- k))) = (2::real) ^ nat (- k)" by (rule powr_realpow) simp
  finally show ?thesis using False by (simp add: pow2_def)
qed

lemma pow2_pos [simp]: "0 < pow2 k"
  by (simp add: pow2_powr)

lemma pow2_nonneg [simp]: "0 \<le> pow2 k"
  by (simp add: pow2_powr)

lemma pow2_nonzero [simp]: "pow2 k \<noteq> 0"
  by (simp add: pow2_powr)

lemma pow2_add: "pow2 (a + b) = pow2 a * pow2 b"
  by (simp add: pow2_powr powr_add)


lemma pow2_less_iff: "pow2 a < pow2 b \<longleftrightarrow> a < b"
  by (simp add: pow2_powr)

lemma pow2_nonneg_int: "0 \<le> k \<Longrightarrow> pow2 k = of_int (2 ^ nat k)"
  by (simp add: pow2_def)

lemma binade_eq:
  assumes "pow2 e \<le> \<bar>x\<bar>" and "\<bar>x\<bar> < pow2 (e + 1)"
  shows "binade x = e"
proof -
  have "0 < \<bar>x\<bar>" using assms(1) pow2_pos [of e] by linarith
  then show ?thesis
    unfolding binade_def using assms
    by (subst floor_log_eq_powr_iff) (simp_all add: pow2_powr)
qed

lemma binade_bounds:
  assumes "x \<noteq> 0"
  shows "pow2 (binade x) \<le> \<bar>x\<bar>" and "\<bar>x\<bar> < pow2 (binade x + 1)"
proof -
  have p: "0 < \<bar>x\<bar>" using assms by simp
  have "\<lfloor>log 2 \<bar>x\<bar>\<rfloor> = binade x" by (simp add: binade_def)
  then have "2 powr (of_int (binade x)) \<le> \<bar>x\<bar> \<and> \<bar>x\<bar> < 2 powr (of_int (binade x + 1))"
    using floor_log_eq_powr_iff [OF p, of 2 "binade x"] by simp
  then show "pow2 (binade x) \<le> \<bar>x\<bar>" and "\<bar>x\<bar> < pow2 (binade x + 1)"
    by (simp_all add: pow2_powr)
qed

lemma round_half_even_int [simp]: "round_half_even (of_int n) = n"
  by (simp add: round_half_even_def)

lemma round_half_even_error: "\<bar>of_int (round_half_even x) - x\<bar> \<le> 1 / 2"
  unfolding round_half_even_def Let_def by (auto; linarith)

text \<open>
  The nearest double of a real whose binade is known; its distance to the real is at most
  half a quantum; a real that is a multiple of a quantum, with a significand of at most 53
  bits, is a double.
\<close>

lemma nearest_double_eval:
  assumes "pow2 e \<le> \<bar>x\<bar>" and "\<bar>x\<bar> < pow2 (e + 1)"
  shows "nearest_double x =
           of_int (round_half_even (x / pow2 (max e (- 1022) - 52))) * pow2 (max e (- 1022) - 52)"
  by (simp add: nearest_double_def Let_def binade_eq [OF assms])

lemma nearest_double_error:
  assumes "pow2 e \<le> \<bar>x\<bar>" and "\<bar>x\<bar> < pow2 (e + 1)"
  shows "\<bar>nearest_double x - x\<bar> \<le> pow2 (max e (- 1022) - 53)"
proof -
  let ?q = "pow2 (max e (- 1022) - 52)"
  have "\<bar>of_int (round_half_even (x / ?q)) - x / ?q\<bar> * ?q \<le> 1 / 2 * ?q"
    by (intro mult_right_mono round_half_even_error) simp
  moreover have "\<bar>of_int (round_half_even (x / ?q)) - x / ?q\<bar> * ?q
      = \<bar>of_int (round_half_even (x / ?q)) * ?q - x\<bar>"
  proof -
    have "\<bar>of_int (round_half_even (x / ?q)) - x / ?q\<bar> * ?q
        = \<bar>(of_int (round_half_even (x / ?q)) - x / ?q) * ?q\<bar>"
      by (simp add: abs_mult)
    also have "(of_int (round_half_even (x / ?q)) - x / ?q) * ?q
        = of_int (round_half_even (x / ?q)) * ?q - x"
      by (simp add: algebra_simps)
    finally show ?thesis .
  qed
  moreover have "1 / 2 * ?q = pow2 (max e (- 1022) - 53)"
    using pow2_add [of "max e (- 1022) - 53" 1] by (simp add: pow2_def)
  ultimately show ?thesis by (simp add: nearest_double_eval [OF assms])
qed

lemma nearest_double_exact:
  assumes "x = of_int n * pow2 k" and "n \<noteq> 0" and "\<bar>n\<bar> < 2 ^ 53" and "- 1074 \<le> k"
  shows "nearest_double x = x"
proof -
  have x0: "x \<noteq> 0" using assms(1,2) pow2_pos [of k] by simp
  define e where "e = binade x"
  have b: "pow2 e \<le> \<bar>x\<bar>" "\<bar>x\<bar> < pow2 (e + 1)"
    using binade_bounds [OF x0] by (simp_all add: e_def)
  have "\<bar>x\<bar> = of_int \<bar>n\<bar> * pow2 k" using assms(1) by (simp add: abs_mult)
  also have "\<dots> < of_int (2 ^ 53) * pow2 k"
    using assms(3) by (intro mult_strict_right_mono) simp_all
  also have "\<dots> = pow2 (53 + k)"
  proof -
    have "pow2 53 = of_int (2 ^ 53)" by (simp add: pow2_def)
    then show ?thesis by (simp only: pow2_add)
  qed
  finally have "pow2 e < pow2 (53 + k)" using b(1) by linarith
  then have "e < 53 + k" by (simp add: pow2_less_iff)
  then have d: "0 \<le> k - (max e (- 1022) - 52)" using assms(4) by simp
  define j where "j = k - (max e (- 1022) - 52)"
  have "pow2 k = pow2 j * pow2 (max e (- 1022) - 52)"
    using pow2_add [of j "max e (- 1022) - 52"] by (simp add: j_def)
  then have "x / pow2 (max e (- 1022) - 52) = of_int n * pow2 j"
    using assms(1) by simp
  also have "\<dots> = of_int (n * 2 ^ nat j)" using d by (simp add: pow2_nonneg_int j_def)
  finally have "round_half_even (x / pow2 (max e (- 1022) - 52)) = n * 2 ^ nat j"
    by (simp only: round_half_even_int)
  then have "nearest_double x = of_int (n * 2 ^ nat j) * pow2 (max e (- 1022) - 52)"
    by (simp add: nearest_double_def Let_def e_def)
  also have "\<dots> = of_int n * (pow2 j * pow2 (max e (- 1022) - 52))"
    using d by (simp add: pow2_nonneg_int j_def)
  also have "\<dots> = x"
    using pow2_add [of j "max e (- 1022) - 52"] assms(1) by (simp add: j_def)
  finally show ?thesis .
qed

lemma to_number_exact:
  assumes "x = of_int n * pow2 k" and "\<bar>n\<bar> < 2 ^ 53" and "- 1074 \<le> k" and "\<bar>x\<bar> < 2 ^ 1024"
  shows "to_number False x = Fin x"
proof (cases "n = 0")
  case True
  then show ?thesis using assms(1) by (simp add: to_number_def signed_zero_def)
next
  case False
  have "x \<noteq> 0" using assms(1) False pow2_pos [of k] by simp
  then show ?thesis
    using nearest_double_exact [OF assms(1) False assms(2,3)] assms(4)
    by (simp add: to_number_def)
qed

lemma to_number_sign: "x \<noteq> 0 \<Longrightarrow> to_number s x = to_number False x"
  by (simp add: to_number_def)

lemma to_number_zero [simp]: "to_number s 0 = signed_zero s"
  by (simp add: to_number_def)

text \<open>
  How a rounding is evaluated: from the binade \<open>e\<close> of the exact result and the rounded
  multiple \<open>n\<close> of the quantum.
\<close>

lemma to_number_value:
  assumes "pow2 e \<le> \<bar>x\<bar>" and "\<bar>x\<bar> < pow2 (e + 1)"
    and "round_half_even (x / pow2 (max e (- 1022) - 52)) = n"
    and "y = of_int n * pow2 (max e (- 1022) - 52)"
    and "n \<noteq> 0" and "\<bar>y\<bar> < 2 ^ 1024"
  shows "to_number s x = Fin y"
proof -
  have "0 < \<bar>x\<bar>" using assms(1) pow2_pos [of e] by linarith
  then have "x \<noteq> 0" by simp
  moreover have "nearest_double x = y"
    using nearest_double_eval [OF assms(1,2)] assms(3,4) by simp
  moreover have "y \<noteq> 0" using assms(4,5) by simp
  ultimately show ?thesis using assms(6) by (simp add: to_number_def)
qed

lemma to_number_dyadic:
  assumes "x = of_int n * pow2 k" and "\<bar>n\<bar> < 2 ^ 53" and "- 1074 \<le> k" and "\<bar>x\<bar> < 2 ^ 1024"
  shows "to_number s x = (if x = 0 then signed_zero s else Fin x)"
proof (cases "x = 0")
  case True
  then show ?thesis by simp
next
  case False
  then show ?thesis
    using to_number_exact [OF assms] to_number_sign [OF False, of s] by simp
qed

lemma to_number_int:
  assumes "\<bar>n\<bar> < 2 ^ 53"
  shows "to_number s (of_int n) = (if n = 0 then signed_zero s else Fin (of_int n))"
proof -
  have "real_of_int \<bar>n\<bar> < real_of_int (2 ^ 53)" using assms by (simp only: of_int_less_iff)
  also have "\<dots> \<le> 2 ^ 1024" by simp
  finally have "\<bar>real_of_int n\<bar> < 2 ^ 1024" by simp
  then show ?thesis
    using to_number_dyadic [of "of_int n" n 0 s] assms by (simp add: pow2_def)
qed

lemma to_number_numeral [simp]:
  "\<bar>numeral w :: int\<bar> < 2 ^ 53 \<Longrightarrow> to_number s (numeral w) = Fin (numeral w)"
  using to_number_int [of "numeral w" s] by simp

lemma to_number_neg_numeral [simp]:
  "\<bar>- numeral w :: int\<bar> < 2 ^ 53 \<Longrightarrow> to_number s (- numeral w) = Fin (- numeral w)"
  using to_number_int [of "- numeral w" s] by simp

lemma to_number_one [simp]: "to_number s 1 = Fin 1"
  using to_number_dyadic [of 1 1 0 s] by (simp add: pow2_def)

lemma to_number_half [simp]: "to_number s (1 / 2) = Fin (1 / 2)"
  using to_number_dyadic [of "1 / 2" 1 "- 1" s] by (simp add: pow2_def)

text \<open>The doubles that the literals 0.04, 1.08, 1.2 and 0.8 of the source denote.\<close>

lemma lit_004: "lit 0.04 = Fin (5764607523034235 / 2 ^ 57)"
  unfolding lit_def
  by (rule to_number_value [where e = "- 5" and n = 5764607523034235])
     (simp_all add: pow2_def round_half_even_def)

lemma lit_108: "lit 1.08 = Fin (607985949695017 / 2 ^ 49)"
  unfolding lit_def
  by (rule to_number_value [where e = 0 and n = 4863887597560136])
     (simp_all add: pow2_def round_half_even_def)

lemma lit_12: "lit 1.2 = Fin (5404319552844595 / 2 ^ 52)"
  unfolding lit_def
  by (rule to_number_value [where e = 0 and n = 5404319552844595])
     (simp_all add: pow2_def round_half_even_def)

lemma lit_08: "lit 0.8 = Fin (3602879701896397 / 2 ^ 52)"
  unfolding lit_def
  by (rule to_number_value [where e = "- 1" and n = 7205759403792794])
     (simp_all add: pow2_def round_half_even_def)

lemma lit_values:
  "lit (1 / 25) = Fin (5764607523034235 / 2 ^ 57)"
  "lit (27 / 25) = Fin (607985949695017 / 2 ^ 49)"
  "lit (6 / 5) = Fin (5404319552844595 / 2 ^ 52)"
  "lit (4 / 5) = Fin (3602879701896397 / 2 ^ 52)"
  using lit_004 lit_108 lit_12 lit_08 by simp_all

lemmas num_arith = num_mul_def num_sub_def num_add_def num_div_def fin_def signed_zero_def
  signed_inf_def is_inf_def is_zero_def num_le_def num_lt_def num_gt_def num_eq_def




















text \<open>
  The arithmetic rounds: a third of 100 as the program computes it, a product of two
  literals, a sum that depends on the order of its terms, and a product that overflows.
\<close>

lemma third_as_percent:
  "num_mul (num_div (Fin 30) (Fin 90)) (Fin 100) = Fin (2345624805922133 / 2 ^ 46)"
proof -
  have "to_number False (30 / 90) = Fin (6004799503160661 / 2 ^ 54)"
    by (rule to_number_value [where e = "- 2" and n = 6004799503160661])
       (simp_all add: pow2_def round_half_even_def)
  then have d: "num_div (Fin 30) (Fin 90) = Fin (6004799503160661 / 2 ^ 54)"
    by (simp add: num_arith)
  have "to_number False (6004799503160661 / 2 ^ 54 * 100) = Fin (2345624805922133 / 2 ^ 46)"
    by (rule to_number_value [where e = 5 and n = 4691249611844266])
       (simp_all add: pow2_def round_half_even_def)
  then have "num_mul (Fin (6004799503160661 / 2 ^ 54)) (Fin 100) = Fin (2345624805922133 / 2 ^ 46)"
    by (simp add: num_arith)
  then show ?thesis by (simp only: d)
qed

lemma lit_tenths:
  "lit 0.1 = Fin (3602879701896397 / 2 ^ 55)"
  "lit 0.2 = Fin (3602879701896397 / 2 ^ 54)"
  "lit 0.3 = Fin (5404319552844595 / 2 ^ 54)"
  "lit 0.7 = Fin (3152519739159347 / 2 ^ 52)"
  unfolding lit_def
     apply (rule to_number_value [where e = "- 4" and n = 7205759403792794];
      simp add: pow2_def round_half_even_def)
    apply (rule to_number_value [where e = "- 3" and n = 7205759403792794];
      simp add: pow2_def round_half_even_def)
   apply (rule to_number_value [where e = "- 2" and n = 5404319552844595];
      simp add: pow2_def round_half_even_def)
  apply (rule to_number_value [where e = "- 1" and n = 6305039478318694];
      simp add: pow2_def round_half_even_def)
  done

lemma product_rounds:
  "num_mul (lit 0.1) (lit 0.7) = Fin (5044031582654955 / 2 ^ 56)"
proof -
  have "to_number False (3602879701896397 / 2 ^ 55 * (3152519739159347 / 2 ^ 52))
      = Fin (5044031582654955 / 2 ^ 56)"
    by (rule to_number_value [where e = "- 4" and n = 5044031582654955])
       (simp_all add: pow2_def round_half_even_def)
  then show ?thesis
    unfolding lit_tenths by (simp add: num_arith)
qed

lemma sum_depends_on_order:
  "sum_in_order [lit 0.1, lit 0.2, lit 0.3] = Fin (1351079888211149 / 2 ^ 51)"
  "sum_in_order [lit 0.3, lit 0.2, lit 0.1] = Fin (5404319552844595 / 2 ^ 53)"
proof -
  have z: "num_add (Fin 0) (Fin x) = to_number False x" for x
    by (simp add: num_arith)
  have l1: "to_number False (3602879701896397 / 2 ^ 55) = Fin (3602879701896397 / 2 ^ 55)"
    using to_number_dyadic [of "3602879701896397 / 2 ^ 55" 3602879701896397 "- 55" False]
    by (simp add: pow2_def)
  have l3: "to_number False (5404319552844595 / 2 ^ 54) = Fin (5404319552844595 / 2 ^ 54)"
    using to_number_dyadic [of "5404319552844595 / 2 ^ 54" 5404319552844595 "- 54" False]
    by (simp add: pow2_def)
  have "to_number False (3602879701896397 / 2 ^ 55 + 3602879701896397 / 2 ^ 54)
      = Fin (1351079888211149 / 2 ^ 52)"
    by (rule to_number_value [where e = "- 2" and n = 5404319552844596])
       (simp_all add: pow2_def round_half_even_def)
  then have a: "num_add (Fin (3602879701896397 / 2 ^ 55)) (Fin (3602879701896397 / 2 ^ 54))
      = Fin (1351079888211149 / 2 ^ 52)"
    by (simp add: num_arith)
  have "to_number False (1351079888211149 / 2 ^ 52 + 5404319552844595 / 2 ^ 54)
      = Fin (1351079888211149 / 2 ^ 51)"
    by (rule to_number_value [where e = "- 1" and n = 5404319552844596])
       (simp_all add: pow2_def round_half_even_def)
  then have b: "num_add (Fin (1351079888211149 / 2 ^ 52)) (Fin (5404319552844595 / 2 ^ 54))
      = Fin (1351079888211149 / 2 ^ 51)"
    by (simp add: num_arith)
  have "to_number False (5404319552844595 / 2 ^ 54 + 3602879701896397 / 2 ^ 54) = Fin (1 / 2)"
    by (rule to_number_value [where e = "- 1" and n = 4503599627370496])
       (simp_all add: pow2_def round_half_even_def)
  then have c: "num_add (Fin (5404319552844595 / 2 ^ 54)) (Fin (3602879701896397 / 2 ^ 54))
      = Fin (1 / 2)"
    by (simp add: num_arith)
  have "to_number False (1 / 2 + 3602879701896397 / 2 ^ 55) = Fin (5404319552844595 / 2 ^ 53)"
    by (rule to_number_value [where e = "- 1" and n = 5404319552844595])
       (simp_all add: pow2_def round_half_even_def)
  then have d: "num_add (Fin (1 / 2)) (Fin (3602879701896397 / 2 ^ 55))
      = Fin (5404319552844595 / 2 ^ 53)"
    by (simp add: num_arith)
  show "sum_in_order [lit 0.1, lit 0.2, lit 0.3] = Fin (1351079888211149 / 2 ^ 51)"
    unfolding lit_tenths sum_in_order_def foldl.simps z l1 a b ..
  show "sum_in_order [lit 0.3, lit 0.2, lit 0.1] = Fin (5404319552844595 / 2 ^ 53)"
    unfolding lit_tenths sum_in_order_def foldl.simps z l3 c d ..
qed

lemma product_overflows: "num_mul (Fin (2 ^ 1023)) (Fin 2) = PosInf"
proof -
  have "nearest_double (2 ^ 1023 * 2) = 2 ^ 1023 * 2"
    by (rule nearest_double_exact [where n = 1 and k = 1024]) (simp_all add: pow2_def)
  then have "to_number False (2 ^ 1023 * 2) = PosInf"
    by (simp add: to_number_def signed_inf_def)
  then show ?thesis by (simp add: num_arith)
qed

section \<open>Properties of the valuation\<close>

lemma foldl_sum_in_order:
  "foldl (\<lambda>sum p. num_add sum (f p)) a ps = foldl num_add a (map f ps)"
  by (induction ps arbitrary: a) simp_all

lemma portfolio_sums:
  "calculatePortfolioValue ps = sum_in_order (map market_value ps)"
  "calculatePortfolioCost ps = sum_in_order (map cost_basis ps)"
  using foldl_sum_in_order [of market_value "Fin 0" ps] foldl_sum_in_order [of cost_basis "Fin 0" ps]
  by (simp_all add: calculatePortfolioValue_def calculatePortfolioCost_def sum_in_order_def
      market_value_def [abs_def] cost_basis_def [abs_def])

lemma calculateMetrics_watchlist:
  "calculateMetrics ps =
     \<lparr>totalValue = calculatePortfolioValue ps, totalCost = calculatePortfolioCost ps,
      totalGainLoss = portfolioPnL ps, totalGainLossPercent = portfolioReturn ps\<rparr>"
  by (simp add: calculateMetrics_def calculatePortfolioValue_def calculatePortfolioCost_def
      portfolioPnL_def portfolioReturn_def Let_def)

lemma not_gt_if_le: "num_le x y \<Longrightarrow> \<not> num_gt x y"
  by (cases x; cases y) (auto simp add: num_le_def num_gt_def num_lt_def num_eq_def is_zero_def)

text \<open>
  Claim C1. For every list of positions, the summary of the Portfolio page (and the same
  summary on the Watchlist page) has as total value the sum of the market values, shares
  times current price, as total cost the sum of the cost bases, shares times average cost,
  as gain or loss their difference, and as percentage the gain or loss over the total cost
  times 100 when the total cost is positive and exactly 0 otherwise, so whenever the total
  cost is at most 0. Every operation is the one of the program, on doubles, and the sums
  add from 0 in the order of the list. For the empty list all four are 0. The function has
  no failing branch.
\<close>

theorem aggregatePortfolio_totals:
  "(let V = sum_in_order (map market_value ps);
        C = sum_in_order (map cost_basis ps)
    in calculateMetrics ps =
         \<lparr>totalValue = V, totalCost = C, totalGainLoss = num_sub V C,
          totalGainLossPercent =
            (if num_gt C (Fin 0) then num_mul (num_div (num_sub V C) C) (Fin 100) else Fin 0)\<rparr>
     \<and> calculatePortfolioValue ps = V \<and> calculatePortfolioCost ps = C
     \<and> portfolioPnL ps = num_sub V C
     \<and> portfolioReturn ps = totalGainLossPercent (calculateMetrics ps)
     \<and> (num_le C (Fin 0) \<longrightarrow> totalGainLossPercent (calculateMetrics ps) = Fin 0))
   \<and> calculateMetrics [] =
       \<lparr>totalValue = Fin 0, totalCost = Fin 0, totalGainLoss = Fin 0,
        totalGainLossPercent = Fin 0\<rparr>"
proof -
  have e: "calculateMetrics [] =
             \<lparr>totalValue = Fin 0, totalCost = Fin 0, totalGainLoss = Fin 0,
              totalGainLossPercent = Fin 0\<rparr>"
    by (simp add: calculateMetrics_def Let_def num_arith)
  have m: "let V = sum_in_order (map market_value ps);
        C = sum_in_order (map cost_basis ps)
    in calculateMetrics ps =
         \<lparr>totalValue = V, totalCost = C, totalGainLoss = num_sub V C,
          totalGainLossPercent =
            (if num_gt C (Fin 0) then num_mul (num_div (num_sub V C) C) (Fin 100) else Fin 0)\<rparr>
     \<and> calculatePortfolioValue ps = V \<and> calculatePortfolioCost ps = C
     \<and> portfolioPnL ps = num_sub V C
     \<and> portfolioReturn ps = totalGainLossPercent (calculateMetrics ps)
     \<and> (num_le C (Fin 0) \<longrightarrow> totalGainLossPercent (calculateMetrics ps) = Fin 0)"
    using not_gt_if_le [of "sum_in_order (map cost_basis ps)" "Fin 0"]
    by (simp add: calculateMetrics_watchlist portfolio_sums portfolioPnL_def portfolioReturn_def
        Let_def)
  from m e show ?thesis by (rule conjI)
qed

theorem aggregatePortfolio_totals_witness:
  "calculateMetrics [holding 10 5 6, holding 5 10 8] =
     \<lparr>totalValue = Fin 100, totalCost = Fin 100, totalGainLoss = Fin 0,
      totalGainLossPercent = Fin 0\<rparr>
   \<and> num_le (totalCost (calculateMetrics [])) (Fin 0)
   \<and> totalGainLossPercent (calculateMetrics []) = Fin 0
   \<and> calculateMetrics [holding 10 4 6] =
     \<lparr>totalValue = Fin 60, totalCost = Fin 40, totalGainLoss = Fin 20,
      totalGainLossPercent = Fin 50\<rparr>"
  using aggregatePortfolio_totals [of "[holding 10 5 6, holding 5 10 8]"]
    aggregatePortfolio_totals [of "[]"] aggregatePortfolio_totals [of "[holding 10 4 6]"]
  by (simp add: holding_def Let_def sum_in_order_def market_value_def cost_basis_def num_arith)

lemma calculateMetrics_rounds:
  "calculateMetrics [holding 10 5 6, holding 4 10 15] =
     \<lparr>totalValue = Fin 120, totalCost = Fin 90, totalGainLoss = Fin 30,
      totalGainLossPercent = Fin (2345624805922133 / 2 ^ 46)\<rparr>"
proof -
  have "calculateMetrics [holding 10 5 6, holding 4 10 15] =
     \<lparr>totalValue = Fin 120, totalCost = Fin 90, totalGainLoss = Fin 30,
      totalGainLossPercent = num_mul (num_div (Fin 30) (Fin 90)) (Fin 100)\<rparr>"
    by (simp add: calculateMetrics_def holding_def Let_def num_sub_def num_add_def num_mul_def
        num_gt_def num_lt_def is_inf_def is_zero_def)
  then show ?thesis by (simp only: third_as_percent)
qed

lemma renderHolding_eq: "renderHolding p = renderPosition p"
  by (simp add: renderHolding_def renderPosition_def)

lemma num_div_by_zero:
  assumes "is_zero y"
  shows "num_div x y =
           (if x = NaN \<or> is_zero x then NaN else signed_inf (negative x \<noteq> negative y))"
  using assms by (auto simp add: num_div_def is_zero_def is_inf_def)

lemma num_mul_100_NaN: "num_mul NaN (Fin 100) = NaN"
  by (simp add: num_mul_def)

lemma num_mul_100_inf: "num_mul (signed_inf s) (Fin 100) = signed_inf s"
  by (simp add: num_mul_def signed_inf_def is_inf_def is_zero_def)

lemma percent_of_zero_divisor:
  assumes "is_zero y"
  shows "num_mul (num_div x y) (Fin 100) =
           (if x = NaN \<or> is_zero x then NaN else signed_inf (negative x \<noteq> negative y))"
  by (simp add: num_div_by_zero [OF assms] num_mul_100_NaN num_mul_100_inf)

lemma percent_of_zero_divisor_not_finite:
  assumes "is_zero y"
  shows "\<not> is_finite (num_mul (num_div x y) (Fin 100))"
  by (simp add: percent_of_zero_divisor [OF assms] signed_inf_def)

lemma to_number_minus_one [simp]: "to_number s (- 1) = Fin (- 1)"
  using to_number_int [of "- 1" s] by simp

text \<open>
  Claim C2, as amended. The row of a position never fails, on either page, and its
  percentage is the gain or loss divided by the cost basis, times 100, in the arithmetic
  of doubles, whatever the cost basis. When the cost basis is a zero no error is raised
  and the percentage is not a finite number: it is NaN when the gain or loss is a zero or
  NaN, and otherwise an infinity, negative when the signs of the gain or loss and of the
  zero differ.
\<close>

theorem gain_loss_percent_unguarded:
  "\<exists>r. renderPosition p = Inr r \<and> renderHolding p = Inr r
       \<and> costBasis r = num_mul (shares p) (avg_cost p)
       \<and> gainLoss r = num_sub (num_mul (shares p) (current_price (stock p))) (costBasis r)
       \<and> gainLossPercent r = num_mul (num_div (gainLoss r) (costBasis r)) (Fin 100)
       \<and> (is_zero (costBasis r) \<longrightarrow>
            gainLossPercent r =
              (if gainLoss r = NaN \<or> is_zero (gainLoss r) then NaN
               else signed_inf (negative (gainLoss r) \<noteq> negative (costBasis r)))
            \<and> \<not> is_finite (gainLossPercent r))"
proof -
  define r where "r =
    \<lparr>currentValue = num_mul (shares p) (current_price (stock p)),
     costBasis = num_mul (shares p) (avg_cost p),
     gainLoss = num_sub (num_mul (shares p) (current_price (stock p)))
                  (num_mul (shares p) (avg_cost p)),
     gainLossPercent =
       num_mul (num_div (num_sub (num_mul (shares p) (current_price (stock p)))
                           (num_mul (shares p) (avg_cost p)))
                  (num_mul (shares p) (avg_cost p))) (Fin 100)\<rparr>"
  have 1: "renderPosition p = Inr r"
    by (simp add: r_def renderPosition_def Let_def)
  then have 2: "renderHolding p = Inr r"
    by (simp add: renderHolding_eq)
  have 3: "costBasis r = num_mul (shares p) (avg_cost p)"
    and 4: "gainLoss r = num_sub (num_mul (shares p) (current_price (stock p))) (costBasis r)"
    and 5: "gainLossPercent r = num_mul (num_div (gainLoss r) (costBasis r)) (Fin 100)"
    by (simp_all add: r_def)
  have 6: "gainLossPercent r =
              (if gainLoss r = NaN \<or> is_zero (gainLoss r) then NaN
               else signed_inf (negative (gainLoss r) \<noteq> negative (costBasis r)))
            \<and> \<not> is_finite (gainLossPercent r)"
    if "is_zero (costBasis r)"
    unfolding 5
    using percent_of_zero_divisor [OF that] percent_of_zero_divisor_not_finite [OF that]
    by (rule conjI)
  from 1 2 3 4 5 6 show ?thesis by blast
qed

theorem gain_loss_percent_unguarded_witness:
  "renderPosition (holding 10 4 6) =
     Inr \<lparr>currentValue = Fin 60, costBasis = Fin 40, gainLoss = Fin 20, gainLossPercent = Fin 50\<rparr>
   \<and> is_zero (costBasis (projr (renderPosition (holding 10 0 6))))
   \<and> renderPosition (holding 10 0 6) =
     Inr \<lparr>currentValue = Fin 60, costBasis = Fin 0, gainLoss = Fin 60, gainLossPercent = PosInf\<rparr>"
  using gain_loss_percent_unguarded [of "holding 10 4 6"]
    gain_loss_percent_unguarded [of "holding 10 0 6"]
  by (simp add: holding_def renderPosition_def Let_def num_arith)

text \<open>
  Claim C2 as stated fails: for a position of zero shares the cost basis is zero, and the
  row is returned with the percentage NaN instead of a DivisionByZero error.
\<close>

theorem gain_loss_percent_division_by_zero_counterexample:
  "val (costBasis (projr (renderPosition (holding 0 5 6)))) = 0
   \<and> renderPosition (holding 0 5 6) \<noteq> Inl DivisionByZero
   \<and> renderPosition (holding 0 5 6) =
     Inr \<lparr>currentValue = Fin 0, costBasis = Fin 0, gainLoss = Fin 0, gainLossPercent = NaN\<rparr>"
  by (simp add: holding_def renderPosition_def Let_def num_arith)

text \<open>
  A position with finite fields and a positive cost basis whose market value overflows:
  its percentage is plus infinity.
\<close>

lemma renderPosition_overflows:
  "renderPosition (holding (2 ^ 1023) 1 2) =
     Inr \<lparr>currentValue = PosInf, costBasis = Fin (2 ^ 1023), gainLoss = PosInf,
          gainLossPercent = PosInf\<rparr>"
proof -
  define t :: real where "t = 2 ^ 1023"
  have t: "0 < t" by (simp add: t_def)
  have o: "num_mul (Fin t) (Fin 2) = PosInf"
    using product_overflows by (simp only: t_def)
  have "to_number False (2 ^ 1023) = Fin (2 ^ 1023)"
    using to_number_dyadic [of "2 ^ 1023" 1 1023 False] by (simp add: pow2_def)
  then have "to_number False t = Fin t" by (simp only: t_def)
  then have c: "num_mul (Fin t) (Fin 1) = Fin t"
    using t by (simp add: num_arith)
  have s: "num_sub PosInf (Fin t) = PosInf"
    and d: "num_div PosInf (Fin t) = PosInf"
    and m: "num_mul PosInf (Fin 100) = PosInf"
    using t by (simp_all add: num_arith)
  have "renderPosition (holding t 1 2) =
     Inr \<lparr>currentValue = PosInf, costBasis = Fin t, gainLoss = PosInf,
          gainLossPercent = PosInf\<rparr>"
    by (simp add: renderPosition_def holding_def Let_def o c s d m)
  then show ?thesis by (simp only: t_def)
qed

text \<open>
  Claim C3, as amended. The row of a position does not validate the current price: for
  every price, also one that is zero or negative, it completes normally, with the market
  value shares times price, the cost basis shares times average cost and the gain or loss
  market value minus cost basis, in the arithmetic of doubles. It never ends in
  InvalidQuote.
\<close>

theorem current_price_not_validated:
  "\<exists>r. renderPosition p = Inr r \<and> renderHolding p = Inr r
       \<and> currentValue r = num_mul (shares p) (current_price (stock p))
       \<and> costBasis r = num_mul (shares p) (avg_cost p)
       \<and> gainLoss r = num_sub (currentValue r) (costBasis r)
       \<and> (num_le (current_price (stock p)) (Fin 0) \<longrightarrow> renderPosition p \<noteq> Inl InvalidQuote)"
  by (simp add: renderHolding_eq renderPosition_def Let_def)

theorem current_price_not_validated_witness:
  "num_le (current_price (stock (holding 10 4 (- 1)))) (Fin 0)
   \<and> renderPosition (holding 10 4 (- 1)) \<noteq> Inl InvalidQuote
   \<and> renderPosition (holding 10 4 (- 1)) =
     Inr \<lparr>currentValue = Fin (- 10), costBasis = Fin 40, gainLoss = Fin (- 50),
          gainLossPercent = Fin (- 125)\<rparr>"
proof -
  have q: "to_number True (- (5 / 4)) = Fin (- (5 / 4))"
    using to_number_dyadic [of "- (5 / 4)" "- 5" "- 2" True] by (simp add: pow2_def)
  show ?thesis
    using current_price_not_validated [of "holding 10 4 (- 1)"]
    by (simp add: holding_def renderPosition_def Let_def num_arith q)
qed

text \<open>
  Claim C3 as stated fails: with the current price 0 the row is returned, not an
  InvalidQuote error.
\<close>

theorem invalid_quote_counterexample:
  "num_le (current_price (stock (holding 10 5 0))) (Fin 0)
   \<and> renderPosition (holding 10 5 0) \<noteq> Inl InvalidQuote
   \<and> renderPosition (holding 10 5 0) =
     Inr \<lparr>currentValue = Fin 0, costBasis = Fin 50, gainLoss = Fin (- 50),
          gainLossPercent = Fin (- 100)\<rparr>"
  by (simp add: holding_def renderPosition_def Let_def num_arith)

lemma num_lt_finite: "is_finite x \<Longrightarrow> is_finite y \<Longrightarrow> num_lt x y = (val x < val y)"
  by (cases x; cases y) (simp_all add: num_lt_def)

lemma three_way_count:
  fixes f g :: "'a \<Rightarrow> real"
  shows "length (filter (\<lambda>p. g p < f p) ps) + length (filter (\<lambda>p. f p < g p) ps)
         + length (filter (\<lambda>p. f p = g p) ps) = length ps"
  by (induction ps) auto

text \<open>
  Claim C8. For every list of positions with finite fields, the winners are the positions
  whose current price is above the average cost, the losers those whose price is below
  it; a position with equal price and cost is in neither count, so that winners, losers
  and ties add up to the number of positions and winners plus losers is at most that
  number.
\<close>

theorem winners_losers_counts:
  assumes "\<forall>p \<in> set ps. finite_position p"
  shows "winners ps = length (filter (\<lambda>p. val (avg_cost p) < val (current_price (stock p))) ps)
       \<and> losers ps = length (filter (\<lambda>p. val (current_price (stock p)) < val (avg_cost p)) ps)
       \<and> winners ps + losers ps
           + length (filter (\<lambda>p. val (current_price (stock p)) = val (avg_cost p)) ps) = length ps
       \<and> winners ps + losers ps \<le> length ps"
proof -
  have w: "winners ps = length (filter (\<lambda>p. val (avg_cost p) < val (current_price (stock p))) ps)"
    unfolding winners_def num_gt_def using assms
    by (intro arg_cong[where f=length] filter_cong) (simp_all add: finite_position_def num_lt_finite)
  have l: "losers ps = length (filter (\<lambda>p. val (current_price (stock p)) < val (avg_cost p)) ps)"
    unfolding losers_def using assms
    by (intro arg_cong[where f=length] filter_cong) (simp_all add: finite_position_def num_lt_finite)
  have t: "winners ps + losers ps
           + length (filter (\<lambda>p. val (current_price (stock p)) = val (avg_cost p)) ps) = length ps"
    unfolding w l
    using three_way_count[of "\<lambda>p. val (avg_cost p)" "\<lambda>p. val (current_price (stock p))" ps]
    by simp
  from w l t show ?thesis by linarith
qed

theorem winners_losers_counts_witness:
  "finite_position (holding 10 5 6) \<and> finite_position (holding 5 10 8)
   \<and> finite_position (holding 3 7 7)
   \<and> winners [holding 10 5 6, holding 5 10 8, holding 3 7 7] = 1
   \<and> losers [holding 10 5 6, holding 5 10 8, holding 3 7 7] = 1
   \<and> length (filter (\<lambda>p. val (current_price (stock p)) = val (avg_cost p))
        [holding 10 5 6, holding 5 10 8, holding 3 7 7]) = 1"
  using winners_losers_counts [of "[holding 10 5 6, holding 5 10 8, holding 3 7 7]"]
  by (simp add: finite_position_def holding_def)

text \<open>
  Claim C10. The change percentage (as a function, and as written inline in the mini
  chart) is the difference of the prices divided by the previous close, times 100, in the
  arithmetic of doubles, with no guard. When the previous close is a zero the result is
  not a finite number: NaN when the difference is a zero or NaN, and an infinity
  otherwise. So the result is finite only when the previous close is not zero. With both
  prices 0 the result is NaN, and with the price 5 after the close 0 it is plus infinity.
\<close>

theorem change_percentage_unguarded:
  "getChangePercentage current previous =
     num_mul (num_div (num_sub current previous) previous) (Fin 100)
   \<and> changePercent current previous = getChangePercentage current previous
   \<and> (is_zero previous \<longrightarrow>
        getChangePercentage current previous =
          (if num_sub current previous = NaN \<or> is_zero (num_sub current previous) then NaN
           else signed_inf (negative (num_sub current previous) \<noteq> negative previous))
        \<and> \<not> is_finite (getChangePercentage current previous))
   \<and> (is_finite (getChangePercentage current previous) \<longrightarrow> \<not> is_zero previous)
   \<and> getChangePercentage (Fin 0) (Fin 0) = NaN
   \<and> getChangePercentage (Fin 5) (Fin 0) = PosInf"
proof -
  let ?d = "num_sub current previous"
  let ?r = "getChangePercentage current previous"
  have g: "?r = num_mul (num_div ?d previous) (Fin 100)"
    by (simp add: getChangePercentage_def)
  have c: "changePercent current previous = ?r"
    by (simp add: getChangePercentage_def changePercent_def)
  have z: "?r = (if ?d = NaN \<or> is_zero ?d then NaN
                else signed_inf (negative ?d \<noteq> negative previous))
           \<and> \<not> is_finite ?r"
    if "is_zero previous"
    unfolding g
    using percent_of_zero_divisor [OF that] percent_of_zero_divisor_not_finite [OF that]
    by (rule conjI)
  then have f: "is_finite ?r \<longrightarrow> \<not> is_zero previous" by blast
  have e: "getChangePercentage (Fin 0) (Fin 0) = NaN" "getChangePercentage (Fin 5) (Fin 0) = PosInf"
    by (simp_all add: getChangePercentage_def num_arith)
  from g c z f e show ?thesis by blast
qed

theorem change_percentage_unguarded_witness:
  "getChangePercentage (Fin 150) (Fin 100) = Fin 50
   \<and> is_zero (Fin 0)
   \<and> getChangePercentage (Fin 5) (Fin 0) = PosInf
   \<and> \<not> is_finite (getChangePercentage (Fin 5) (Fin 0))"
  using change_percentage_unguarded [of "Fin 150" "Fin 100"]
    change_percentage_unguarded [of "Fin 5" "Fin 0"]
  by (simp add: getChangePercentage_def num_arith)

text \<open>
  With finite prices and a previous close that is not zero the change percentage can
  still be infinite, by overflow of the difference.
\<close>

lemma getChangePercentage_overflows:
  "getChangePercentage (Fin (2 ^ 1023)) (Fin (- (2 ^ 1023))) = NegInf"
proof -
  have "nearest_double (2 ^ 1023 + 2 ^ 1023) = 2 ^ 1023 + 2 ^ 1023"
    by (rule nearest_double_exact [where n = 1 and k = 1024]) (simp_all add: pow2_def)
  then have "to_number False (2 ^ 1023 + 2 ^ 1023) = PosInf"
    by (simp add: to_number_def signed_inf_def)
  then have s: "num_sub (Fin (2 ^ 1023)) (Fin (- (2 ^ 1023))) = PosInf"
    by (simp add: num_arith)
  have d: "num_div PosInf (Fin (- (2 ^ 1023))) = NegInf"
    and m: "num_mul NegInf (Fin 100) = NegInf"
    by (simp_all add: num_arith)
  show ?thesis
    unfolding getChangePercentage_def s d m ..
qed

section \<open>Properties of the alert operations\<close>

lemma only_changed_refl: "only_changed change alertId xs xs"
  by (simp add: only_changed_def)

lemma only_changed_map:
  assumes "\<And>a. P a \<Longrightarrow> alert_id a = alertId"
  shows "only_changed change alertId xs (map (\<lambda>a. if P a then change a else a) xs)"
  using assms by (simp add: only_changed_def)

lemma only_changed_update:
  "only_changed change alertId rows (update_alerts uid change alertId rows)"
  unfolding update_alerts_def by (rule only_changed_map) simp

lemma flagged_after_map:
  assumes "\<And>a. Q (change a)"
  shows "\<forall>a \<in> set (map (\<lambda>alert. if alert_id alert = alertId then change alert else alert) xs).
           alert_id a = alertId \<longrightarrow> Q a"
  using assms by (induction xs) simp_all

lemma alerts_after_Alerts_markAsRead:
  "\<not> failed \<Longrightarrow> alerts (Alerts_markAsRead uid failed alertId st)
     = map (\<lambda>alert. if alert_id alert = alertId then alert\<lparr>is_read := True\<rparr> else alert) (alerts st)"
  by (simp add: Alerts_markAsRead_def)

lemma alerts_after_AlertsManager_markAsRead:
  "\<not> failed \<Longrightarrow> alerts (AlertsManager_markAsRead uid failed alertId st)
     = map (\<lambda>alert. if alert_id alert = alertId then alert\<lparr>is_read := True\<rparr> else alert) (alerts st)"
  by (simp add: AlertsManager_markAsRead_def)

lemma alerts_after_Alerts_dismissAlert:
  "\<not> failed \<Longrightarrow> alerts (Alerts_dismissAlert uid failed alertId st)
     = map (\<lambda>alert. if alert_id alert = alertId then alert\<lparr>is_dismissed := True\<rparr> else alert) (alerts st)"
  by (simp add: Alerts_dismissAlert_def)

text \<open>
  Claim C9, as amended. For every state, user, alert id and answer of the backend: marking
  as read (in both components) changes nothing but the flag \<open>is_read\<close>, set to true, of
  alerts with that id, in the component's list and in the stored table alike; dismissing
  changes nothing but the flag \<open>is_dismissed\<close> of such alerts in the stored table (both
  components) and in the list of the Alerts page; no list or table changes its length
  there. The component AlertsManager, on a successful dismissal, removes the alerts with
  that id from its own list and keeps all others, in order. After a successful update the
  alerts with that id in the component's list do carry the flag.
\<close>

theorem alert_flags_frame:
  "only_changed (\<lambda>a. a\<lparr>is_read := True\<rparr>) alertId
     (alerts st) (alerts (Alerts_markAsRead uid failed alertId st))
   \<and> only_changed (\<lambda>a. a\<lparr>is_read := True\<rparr>) alertId
     (alerts_table st) (alerts_table (Alerts_markAsRead uid failed alertId st))
   \<and> only_changed (\<lambda>a. a\<lparr>is_read := True\<rparr>) alertId
     (alerts st) (alerts (AlertsManager_markAsRead uid failed alertId st))
   \<and> only_changed (\<lambda>a. a\<lparr>is_read := True\<rparr>) alertId
     (alerts_table st) (alerts_table (AlertsManager_markAsRead uid failed alertId st))
   \<and> only_changed (\<lambda>a. a\<lparr>is_dismissed := True\<rparr>) alertId
     (alerts st) (alerts (Alerts_dismissAlert uid failed alertId st))
   \<and> only_changed (\<lambda>a. a\<lparr>is_dismissed := True\<rparr>) alertId
     (alerts_table st) (alerts_table (Alerts_dismissAlert uid failed alertId st))
   \<and> only_changed (\<lambda>a. a\<lparr>is_dismissed := True\<rparr>) alertId
     (alerts_table st) (alerts_table (AlertsManager_dismissAlert uid failed alertId st))
   \<and> alerts (AlertsManager_dismissAlert uid failed alertId st)
       = (if failed then alerts st else filter (\<lambda>a. alert_id a \<noteq> alertId) (alerts st))
   \<and> (\<not> failed \<longrightarrow>
        (\<forall>a \<in> set (alerts (Alerts_markAsRead uid failed alertId st)).
            alert_id a = alertId \<longrightarrow> is_read a)
      \<and> (\<forall>a \<in> set (alerts (AlertsManager_markAsRead uid failed alertId st)).
            alert_id a = alertId \<longrightarrow> is_read a)
      \<and> (\<forall>a \<in> set (alerts (Alerts_dismissAlert uid failed alertId st)).
            alert_id a = alertId \<longrightarrow> is_dismissed a))"
proof -
  have m: "only_changed change alertId xs
             (map (\<lambda>alert. if alert_id alert = alertId then change alert else alert) xs)"
    for change xs
    by (rule only_changed_map) simp
  have c1: "only_changed (\<lambda>a. a\<lparr>is_read := True\<rparr>) alertId
     (alerts st) (alerts (Alerts_markAsRead uid failed alertId st))"
    by (cases failed) (simp_all add: Alerts_markAsRead_def only_changed_refl m)
  have c2: "only_changed (\<lambda>a. a\<lparr>is_read := True\<rparr>) alertId
     (alerts_table st) (alerts_table (Alerts_markAsRead uid failed alertId st))"
    by (cases failed) (simp_all add: Alerts_markAsRead_def only_changed_refl only_changed_update)
  have c3: "only_changed (\<lambda>a. a\<lparr>is_read := True\<rparr>) alertId
     (alerts st) (alerts (AlertsManager_markAsRead uid failed alertId st))"
    by (cases failed) (simp_all add: AlertsManager_markAsRead_def only_changed_refl m)
  have c4: "only_changed (\<lambda>a. a\<lparr>is_read := True\<rparr>) alertId
     (alerts_table st) (alerts_table (AlertsManager_markAsRead uid failed alertId st))"
    by (cases failed)
       (simp_all add: AlertsManager_markAsRead_def only_changed_refl only_changed_update)
  have c5: "only_changed (\<lambda>a. a\<lparr>is_dismissed := True\<rparr>) alertId
     (alerts st) (alerts (Alerts_dismissAlert uid failed alertId st))"
    by (cases failed) (simp_all add: Alerts_dismissAlert_def only_changed_refl m)
  have c6: "only_changed (\<lambda>a. a\<lparr>is_dismissed := True\<rparr>) alertId
     (alerts_table st) (alerts_table (Alerts_dismissAlert uid failed alertId st))"
    by (cases failed) (simp_all add: Alerts_dismissAlert_def only_changed_refl only_changed_update)
  have c7: "only_changed (\<lambda>a. a\<lparr>is_dismissed := True\<rparr>) alertId
     (alerts_table st) (alerts_table (AlertsManager_dismissAlert uid failed alertId st))"
    by (cases failed)
       (simp_all add: AlertsManager_dismissAlert_def only_changed_refl only_changed_update)
  have c8: "alerts (AlertsManager_dismissAlert uid failed alertId st)
       = (if failed then alerts st else filter (\<lambda>a. alert_id a \<noteq> alertId) (alerts st))"
    by (simp add: AlertsManager_dismissAlert_def)
  have c9: "\<forall>a \<in> set (alerts (Alerts_markAsRead uid failed alertId st)).
            alert_id a = alertId \<longrightarrow> is_read a" if "\<not> failed"
    unfolding alerts_after_Alerts_markAsRead [OF that] by (rule flagged_after_map) simp
  have c10: "\<forall>a \<in> set (alerts (AlertsManager_markAsRead uid failed alertId st)).
            alert_id a = alertId \<longrightarrow> is_read a" if "\<not> failed"
    unfolding alerts_after_AlertsManager_markAsRead [OF that] by (rule flagged_after_map) simp
  have c11: "\<forall>a \<in> set (alerts (Alerts_dismissAlert uid failed alertId st)).
            alert_id a = alertId \<longrightarrow> is_dismissed a" if "\<not> failed"
    unfolding alerts_after_Alerts_dismissAlert [OF that] by (rule flagged_after_map) simp
  show ?thesis
    by (intro conjI impI c1 c2 c3 c4 c5 c6 c7 c8 c9 c10 c11)
qed

theorem alert_flags_frame_witness:
  "alerts (Alerts_markAsRead (Some ''u1'') False ''a1'' example_alerts)
     = [(example_alert ''a1'')\<lparr>is_read := True\<rparr>, example_alert ''a2'']
   \<and> alerts_table (AlertsManager_dismissAlert (Some ''u1'') False ''a1'' example_alerts)
     = [(example_alert ''a1'')\<lparr>is_dismissed := True\<rparr>, example_alert ''a2'']
   \<and> only_changed (\<lambda>a. a\<lparr>is_read := True\<rparr>) ''a1''
     (alerts example_alerts) (alerts (Alerts_markAsRead (Some ''u1'') False ''a1'' example_alerts))"
  using alert_flags_frame [of "''a1''" example_alerts "Some ''u1''" False]
  by (simp add: Alerts_markAsRead_def AlertsManager_dismissAlert_def example_alerts_def
      example_alert_def update_alerts_def)

text \<open>
  Claim C9 as stated fails for the list of AlertsManager: dismissing one of two alerts
  leaves a list of one.
\<close>

theorem dismissAlert_membership_counterexample:
  "alerts example_alerts = [example_alert ''a1'', example_alert ''a2'']
   \<and> alerts (AlertsManager_dismissAlert (Some ''u1'') False ''a1'' example_alerts)
     = [example_alert ''a2'']
   \<and> length (alerts (AlertsManager_dismissAlert (Some ''u1'') False ''a1'' example_alerts))
     \<noteq> length (alerts example_alerts)"
  by (simp add: AlertsManager_dismissAlert_def example_alerts_def example_alert_def)

section \<open>Properties of the backtest simulation\<close>

lemma performanceLoop_step:
  "i \<le> days \<Longrightarrow>
   performanceLoop pw rnd start capital days i k pv =
     \<lparr>date = start + i * 86400000,
      portfolioValue = Math_round (num_mul pv (num_add (Fin 1)
                         (num_mul (num_sub (Fin (rnd k)) (Fin 0.5)) (lit 0.04)))),
      benchmark = benchmark_at pw capital i\<rparr>
     # performanceLoop pw rnd start capital days (i + 7) (Suc k)
         (num_mul pv (num_add (Fin 1) (num_mul (num_sub (Fin (rnd k)) (Fin 0.5)) (lit 0.04))))"
  by (subst performanceLoop.simps) (simp add: Let_def benchmark_at_def)

lemma performanceLoop_done:
  "\<not> i \<le> days \<Longrightarrow> performanceLoop pw rnd start capital days i k pv = []"
  by (subst performanceLoop.simps) simp




lemma generate_results:
  assumes "startDate params = Some s" and "endDate params = Some e" and "s \<le> e"
  shows "\<exists>r. generateMockBacktestResults pw rnd params = Inr r
           \<and> performanceData r =
               performanceLoop pw rnd s (initialCapital params) ((e - s) div 86400000) 0 0
                 (initialCapital params)"
proof -
  let ?pd = "performanceLoop pw rnd s (initialCapital params) ((e - s) div 86400000) 0 0
                 (initialCapital params)"
  have "0 \<le> (e - s) div 86400000" using assms(3) by simp
  then have "?pd \<noteq> []" by (simp add: performanceLoop_step)
  then show ?thesis
    using assms(1,2) by (simp add: generateMockBacktestResults_def Let_def)
qed

text \<open>
  An end before the start, or a string that is no date, leaves the series empty, and the
  simulation ends in the TypeError.
\<close>

lemma generate_without_points:
  shows "startDate params = None \<Longrightarrow> generateMockBacktestResults pw rnd params = Inl TypeError"
    and "endDate params = None \<Longrightarrow> generateMockBacktestResults pw rnd params = Inl TypeError"
    and "startDate params = Some s \<Longrightarrow> endDate params = Some e \<Longrightarrow> e < s \<Longrightarrow>
         generateMockBacktestResults pw rnd params = Inl TypeError"
proof -
  show "generateMockBacktestResults pw rnd params = Inl TypeError" if "startDate params = None"
    using that by (simp add: generateMockBacktestResults_def)
  show "generateMockBacktestResults pw rnd params = Inl TypeError" if "endDate params = None"
    using that by (cases "startDate params") (simp_all add: generateMockBacktestResults_def)
  show "generateMockBacktestResults pw rnd params = Inl TypeError"
    if d: "startDate params = Some s" "endDate params = Some e" and "e < s"
  proof -
    from \<open>e < s\<close> have "(e - s) div 86400000 < 0" by simp
    then have "performanceLoop pw rnd s (initialCapital params) ((e - s) div 86400000) 0 0
                 (initialCapital params) = []"
      by (simp add: performanceLoop_done)
    then show ?thesis using d by (simp add: generateMockBacktestResults_def)
  qed
qed

lemma valid_params_dates:
  assumes "valid_params params"
  obtains s e c where "startDate params = Some s" and "endDate params = Some e" and "s < e"
    and "initialCapital params = Fin c" and "0 < c"
proof -
  from assms obtain s e where d: "startDate params = Some s" "endDate params = Some e" "s < e"
    by (auto simp add: valid_params_def split: option.splits)
  from assms have "is_finite (initialCapital params)" "0 < val (initialCapital params)"
    by (simp_all add: valid_params_def)
  then obtain c where "initialCapital params = Fin c" "0 < c"
    by (cases "initialCapital params") simp_all
  with d that show ?thesis by blast
qed

text \<open>
  Claim C4, as amended. For every valid parameter set, every random source and every
  approximation of the power, the simulation returns a result whose series is not empty,
  and the portfolio value of the first point is the initial capital after one random
  step, rounded: \<^verbatim>\<open>Math.round\<close> of the capital times \<open>1 + (u - 0.5) * 0.04\<close> in the
  arithmetic of doubles, where \<open>u\<close> is the first random value.
\<close>

theorem first_point_after_one_step:
  assumes "valid_params params"
  shows "\<exists>r. generateMockBacktestResults pw rnd params = Inr r \<and> performanceData r \<noteq> []
           \<and> portfolioValue (hd (performanceData r))
               = Math_round (num_mul (initialCapital params)
                   (num_add (Fin 1) (num_mul (num_sub (Fin (rnd 0)) (Fin 0.5)) (lit 0.04))))"
proof -
  from assms obtain s e where d: "startDate params = Some s" "endDate params = Some e" "s < e"
    by (rule valid_params_dates)
  from d obtain r where r: "generateMockBacktestResults pw rnd params = Inr r"
    "performanceData r = performanceLoop pw rnd s (initialCapital params)
        ((e - s) div 86400000) 0 0 (initialCapital params)"
    using generate_results [of params s e pw rnd] by auto
  have n: "0 \<le> (e - s) div 86400000" using d(3) by simp
  have "performanceData r \<noteq> []"
    and "portfolioValue (hd (performanceData r))
               = Math_round (num_mul (initialCapital params)
                   (num_add (Fin 1) (num_mul (num_sub (Fin (rnd 0)) (Fin 0.5)) (lit 0.04))))"
    unfolding r(2) performanceLoop_step [OF n] by simp_all
  with r(1) show ?thesis by blast
qed

lemma first_point:
  assumes "startDate params = Some s" and "endDate params = Some e" and "s \<le> e"
  shows "hd (performanceData (projr (generateMockBacktestResults pw rnd params))) =
     \<lparr>date = s,
      portfolioValue = Math_round (num_mul (initialCapital params) (num_add (Fin 1)
                         (num_mul (num_sub (Fin (rnd 0)) (Fin 0.5)) (lit 0.04)))),
      benchmark = benchmark_at pw (initialCapital params) 0\<rparr>"
proof -
  have n: "0 \<le> (e - s) div 86400000" using assms(3) by simp
  from generate_results [OF assms, of pw rnd] show ?thesis
    by (auto simp add: performanceLoop_step [OF n])
qed

lemma one_step_mid:
  "Math_round (num_mul (Fin 100000) (num_add (Fin 1)
      (num_mul (num_sub (Fin (1 / 2)) (Fin 0.5)) (lit 0.04)))) = Fin 100000"
  by (simp add: lit_values Math_round_def num_arith)

theorem first_point_after_one_step_witness:
  "valid_params (params_2024 100000)
   \<and> (\<exists>r. generateMockBacktestResults exact_pow draws_mid (params_2024 100000) = Inr r
          \<and> performanceData r \<noteq> []
          \<and> portfolioValue (hd (performanceData r)) = Fin 100000)"
proof -
  have v: "valid_params (params_2024 100000)"
    by (simp add: valid_params_def params_2024_def)
  from first_point_after_one_step [OF v, of exact_pow draws_mid]
  obtain r where r: "generateMockBacktestResults exact_pow draws_mid (params_2024 100000) = Inr r"
    "performanceData r \<noteq> []"
    "portfolioValue (hd (performanceData r))
       = Math_round (num_mul (initialCapital (params_2024 100000))
           (num_add (Fin 1) (num_mul (num_sub (Fin (draws_mid 0)) (Fin 0.5)) (lit 0.04))))"
    by blast
  have "portfolioValue (hd (performanceData r)) = Fin 100000"
    unfolding r(3) using one_step_mid by (simp add: params_2024_def draws_mid_def)
  with v r(1,2) show ?thesis by blast
qed

lemma to_number_neg_half [simp]: "to_number s (- (1 / 2)) = Fin (- (1 / 2))"
  using to_number_dyadic [of "- (1 / 2)" "- 1" "- 1" s] by (simp add: pow2_def)

lemma one_step_low:
  "Math_round (num_mul (Fin 100000) (num_add (Fin 1)
      (num_mul (num_sub (Fin 0) (Fin 0.5)) (lit 0.04)))) = Fin 98000"
proof -
  have a: "num_sub (Fin 0) (Fin 0.5) = Fin (- (1 / 2))"
    by (simp add: num_arith)
  have "to_number True (- (5764607523034235 / 2 ^ 58)) = Fin (- (5764607523034235 / 2 ^ 58))"
    using to_number_dyadic [of "- (5764607523034235 / 2 ^ 58)" "- 5764607523034235" "- 58" True]
    by (simp add: pow2_def)
  then have r: "num_mul (Fin (- (1 / 2))) (lit 0.04) = Fin (- (5764607523034235 / 2 ^ 58))"
    by (simp add: lit_values num_arith)
  have "to_number False (1 - 5764607523034235 / 2 ^ 58) = Fin (2206763817411543 / 2 ^ 51)"
    by (rule to_number_value [where e = "- 1" and n = 8827055269646172])
       (simp_all add: pow2_def round_half_even_def)
  then have f: "num_add (Fin 1) (Fin (- (5764607523034235 / 2 ^ 58)))
      = Fin (2206763817411543 / 2 ^ 51)"
    by (simp add: num_arith)
  have "to_number False (100000 * (2206763817411543 / 2 ^ 51)) = Fin 98000"
    by (rule to_number_value [where e = 16 and n = 6734508720128000])
       (simp_all add: pow2_def round_half_even_def)
  then have p: "num_mul (Fin 100000) (Fin (2206763817411543 / 2 ^ 51)) = Fin 98000"
    by (simp add: num_arith)
  show ?thesis
    by (simp only: a r f p) (simp add: Math_round_def fin_def)
qed

text \<open>
  Claim C4 as stated fails: with the capital 100000 and a random source whose first value
  is 0, the first point has the portfolio value 98000.
\<close>

theorem first_point_counterexample:
  "valid_params (params_2024 100000)
   \<and> initialCapital (params_2024 100000) = Fin 100000
   \<and> portfolioValue (hd (performanceData
         (projr (generateMockBacktestResults exact_pow draws_low (params_2024 100000))))) = Fin 98000"
proof -
  have "hd (performanceData
      (projr (generateMockBacktestResults exact_pow draws_low (params_2024 100000))))
      = \<lparr>date = 1704067200000,
         portfolioValue = Math_round (num_mul (Fin 100000) (num_add (Fin 1)
                         (num_mul (num_sub (Fin (draws_low 0)) (Fin 0.5)) (lit 0.04)))),
         benchmark = benchmark_at exact_pow (Fin 100000) 0\<rparr>"
    using first_point [of "params_2024 100000" 1704067200000 1735603200000 exact_pow draws_low]
    by (simp add: params_2024_def)
  then have "portfolioValue (hd (performanceData
      (projr (generateMockBacktestResults exact_pow draws_low (params_2024 100000)))))
      = Math_round (num_mul (Fin 100000) (num_add (Fin 1)
                         (num_mul (num_sub (Fin 0) (Fin 0.5)) (lit 0.04))))"
    by (simp add: draws_low_def)
  then show ?thesis
    by (simp only: one_step_low) (simp add: valid_params_def params_2024_def)
qed

text \<open>
  The roundings of the single steps decide the first point: here the product is rounded to
  98001.5, which \<^verbatim>\<open>Math.round\<close> takes to 98002, where the exact value of the expression
  is below 98001.5.
\<close>

lemma one_step_half_way:
  "Math_round (num_mul (Fin 100000) (num_add (Fin 1)
      (num_mul (num_sub (Fin (1688849860255 / 2 ^ 52)) (Fin 0.5)) (lit 0.04)))) = Fin 98002"
proof -
  have "to_number False (1688849860255 / 2 ^ 52 - 1 / 2) = Fin (- (2250110963824993 / 2 ^ 52))"
    by (rule to_number_value [where e = "- 2" and n = "- 9000443855299972"])
       (simp_all add: pow2_def round_half_even_def)
  then have a: "num_sub (Fin (1688849860255 / 2 ^ 52)) (Fin 0.5)
      = Fin (- (2250110963824993 / 2 ^ 52))"
    by (simp add: num_arith)
  have "to_number True (- (2250110963824993 / 2 ^ 52) * (5764607523034235 / 2 ^ 57))
      = Fin (- (2880142033695991 / 2 ^ 57))"
    by (rule to_number_value [where e = "- 6" and n = "- 5760284067391982"])
       (simp_all add: pow2_def round_half_even_def)
  then have r: "num_mul (Fin (- (2250110963824993 / 2 ^ 52))) (lit 0.04)
      = Fin (- (2880142033695991 / 2 ^ 57))"
    by (simp add: lit_values num_arith)
  have "to_number False (1 - 2880142033695991 / 2 ^ 57) = Fin (8827190377634993 / 2 ^ 53)"
    by (rule to_number_value [where e = "- 1" and n = 8827190377634993])
       (simp_all add: pow2_def round_half_even_def)
  then have f: "num_add (Fin 1) (Fin (- (2880142033695991 / 2 ^ 57)))
      = Fin (8827190377634993 / 2 ^ 53)"
    by (simp add: num_arith)
  have "to_number False (100000 * (8827190377634993 / 2 ^ 53)) = Fin (196003 / 2)"
    by (rule to_number_value [where e = 16 and n = 6734611799343104])
       (simp_all add: pow2_def round_half_even_def)
  then have p: "num_mul (Fin 100000) (Fin (8827190377634993 / 2 ^ 53)) = Fin (196003 / 2)"
    by (simp add: num_arith)
  have "\<lfloor>196003 / 2 + 1 / 2 :: real\<rfloor> = 98002" by simp
  then have m: "Math_round (Fin (196003 / 2)) = Fin 98002"
    by (simp add: Math_round_def fin_def)
  show ?thesis
    by (simp only: a r f p m)
qed

text \<open>
  Claim C5, as amended. For every parameter set whose start date equals its end date, the
  simulation validates no date range and raises no error: it returns a result whose
  series has exactly one point, dated at the start. The page creates the backtest record
  as for any other dates (given a user, a name and a stock), and the timer callback
  stores that result and marks the record completed.
\<close>

theorem same_day_backtest_runs:
  assumes "startDate params = Some t" and "endDate params = Some t"
  shows "(\<exists>r. generateMockBacktestResults pw rnd params = Inr r
            \<and> length (performanceData r) = 1 \<and> date (hd (performanceData r)) = t
            \<and> backtests_table (onTimeout pw rnd now False (bid, params) st)
                = map (\<lambda>row. if bt_id row = bid
                                then row\<lparr>status := ''completed'', results := Some r,
                                         completed_at := Some now\<rparr>
                                else row) (backtests_table st))
         \<and> (name params \<noteq> [] \<and> stocks params \<noteq> [] \<longrightarrow>
              backtests_table (runBacktest (Some uid) params (Some bid) st)
                = backtests_table st @
                    [\<lparr>bt_id = bid, bt_user_id = uid, bt_name = name params, parameters = params,
                      status = ''running'', results = None, completed_at = None\<rparr>]
              \<and> timeouts (runBacktest (Some uid) params (Some bid) st)
                = timeouts st @ [(bid, params)])"
proof -
  from generate_results [OF assms, of pw rnd]
  obtain r where r: "generateMockBacktestResults pw rnd params = Inr r"
    "performanceData r = performanceLoop pw rnd t (initialCapital params) 0 0 0 (initialCapital params)"
    by auto
  have l: "length (performanceData r) = 1" "date (hd (performanceData r)) = t"
    unfolding r(2) by (simp_all add: performanceLoop_step performanceLoop_done)
  have o: "backtests_table (onTimeout pw rnd now False (bid, params) st)
                = map (\<lambda>row. if bt_id row = bid
                                then row\<lparr>status := ''completed'', results := Some r,
                                         completed_at := Some now\<rparr>
                                else row) (backtests_table st)"
    by (simp add: onTimeout_def r(1) Let_def)
  have b: "backtests_table (runBacktest (Some uid) params (Some bid) st)
                = backtests_table st @
                    [\<lparr>bt_id = bid, bt_user_id = uid, bt_name = name params, parameters = params,
                      status = ''running'', results = None, completed_at = None\<rparr>]"
    "timeouts (runBacktest (Some uid) params (Some bid) st) = timeouts st @ [(bid, params)]"
    if "name params \<noteq> []" "stocks params \<noteq> []"
    using that by (simp_all add: runBacktest_def)
  from r(1) l o b show ?thesis by blast
qed

theorem same_day_backtest_runs_witness:
  "startDate params_same_day = endDate params_same_day
   \<and> (\<exists>r. generateMockBacktestResults exact_pow draws_mid params_same_day = Inr r
          \<and> length (performanceData r) = 1)
   \<and> map status (backtests_table (runBacktest (Some ''u1'') params_same_day (Some ''b1'') empty_page))
       = [''running'']"
  using same_day_backtest_runs [of params_same_day 1704067200000 exact_pow draws_mid _ "''b1''"
      empty_page "''u1''"]
  by (auto simp add: params_same_day_def empty_page_def)

text \<open>
  Claim C5 as stated fails: for equal dates the simulation returns a result (whose
  annualized return is NaN when the one random step leaves the capital unchanged).
\<close>

theorem same_day_counterexample:
  "startDate params_same_day = endDate params_same_day
   \<and> generateMockBacktestResults exact_pow draws_mid params_same_day \<noteq> Inl InvalidDateRange
   \<and> generateMockBacktestResults exact_pow draws_mid params_same_day =
       Inr \<lparr>performanceData =
              [\<lparr>date = 1704067200000, portfolioValue = Fin 100000, benchmark = Fin 100000\<rparr>],
            metrics =
              \<lparr>totalReturn = Fin 0, annualizedReturn = NaN,
               sharpeRatio = Fin (3602879701896397 / 2 ^ 51),
               maxDrawdown = Fin (25 / 2), winRate = Fin 65, totalTrades = Fin 45,
               finalValue = Fin 100000\<rparr>\<rparr>"
proof -
  have b: "benchmark_at exact_pow (Fin 100000) 0 = Fin 100000"
    by (simp add: benchmark_at_def Math_pow_def Math_round_def num_arith)
  have p: "performanceLoop exact_pow draws_mid 1704067200000 (Fin 100000) 0 0 0 (Fin 100000)
      = [\<lparr>date = 1704067200000, portfolioValue = Fin 100000, benchmark = Fin 100000\<rparr>]"
    using one_step_mid
    by (simp add: performanceLoop_step performanceLoop_done draws_mid_def b)
  have "to_number False (3602879701896397 / 2 ^ 53) = Fin (3602879701896397 / 2 ^ 53)"
    using to_number_dyadic [of "3602879701896397 / 2 ^ 53" 3602879701896397 "- 53" False]
    by (simp add: pow2_def)
  then have h: "num_mul (Fin (1 / 2)) (lit 0.8) = Fin (3602879701896397 / 2 ^ 53)"
    by (simp add: lit_values num_arith)
  have "to_number False (5404319552844595 / 2 ^ 52 + 3602879701896397 / 2 ^ 53)
      = Fin (3602879701896397 / 2 ^ 51)"
    by (rule to_number_value [where e = 0 and n = 7205759403792794])
       (simp_all add: pow2_def round_half_even_def)
  then have s: "num_add (lit 1.2) (Fin (3602879701896397 / 2 ^ 53)) = Fin (3602879701896397 / 2 ^ 51)"
    by (simp add: lit_values num_arith)
  have q: "to_number False (15 / 2) = Fin (15 / 2)" "to_number False (25 / 2) = Fin (25 / 2)"
    using to_number_dyadic [of "15 / 2" 15 "- 1" False] to_number_dyadic [of "25 / 2" 25 "- 1" False]
    by (simp_all add: pow2_def)
  have m: "num_add (num_mul (Fin (1 / 2)) (Fin 15)) (Fin 5) = Fin (25 / 2)"
    "num_add (Fin 55) (num_mul (Fin (1 / 2)) (Fin 20)) = Fin 65"
    "num_add (Math_floor (num_mul (Fin (1 / 2)) (Fin 50))) (Fin 20) = Fin 45"
    using q by (simp_all add: Math_floor_def num_arith)
  have t: "num_mul (num_div (num_sub (Fin 100000) (Fin 100000)) (Fin 100000)) (Fin 100) = Fin 0"
    by (simp add: num_arith)
  have a: "num_mul (num_sub (Math_pow exact_pow (num_div (Fin 100000) (Fin 100000))
              (num_div (Fin 365) (Fin (of_int 0)))) (Fin 1)) (Fin 100) = NaN"
    by (simp add: Math_pow_def num_arith)
  have f: "Math_round (Fin 100000) = Fin 100000"
    by (simp add: Math_round_def fin_def)
  show ?thesis
    using h s m t a f
    by (simp add: generateMockBacktestResults_def params_same_day_def p Let_def draws_mid_def)
qed

text \<open>
  Claim C6, as amended. For every parameter set with an empty list of stocks,
  \<^verbatim>\<open>runBacktest\<close> creates and updates no backtest record, schedules no simulation and
  leaves the loading flag alone; it shows one error toast: the one asking for a stock when
  a user is signed in and the name is not empty, and the one asking for a name otherwise.
\<close>

theorem no_stocks_no_mutation:
  assumes "stocks params = []"
  shows "backtests_table (runBacktest user params inserted st) = backtests_table st
       \<and> timeouts (runBacktest user params inserted st) = timeouts st
       \<and> loading (runBacktest user params inserted st) = loading st
       \<and> toasts (runBacktest user params inserted st)
           = toasts st @ [if user = None \<or> name params = [] then toast_name_required
                          else toast_no_stocks]"
  using assms by (cases user) (simp_all add: runBacktest_def)

theorem no_stocks_no_mutation_witness:
  "stocks params_no_stocks = []
   \<and> toasts (runBacktest (Some ''u1'') params_no_stocks (Some ''b1'') empty_page) = [toast_no_stocks]
   \<and> backtests_table (runBacktest (Some ''u1'') params_no_stocks (Some ''b1'') empty_page) = []"
  using no_stocks_no_mutation [of params_no_stocks "Some ''u1''" "Some ''b1''" empty_page]
  by (simp add: params_no_stocks_def empty_page_def)

text \<open>
  Claim C6 as stated fails: with an empty name and no stock, the error reported is the
  missing name, not the missing stock.
\<close>

theorem no_stocks_unnamed_counterexample:
  "stocks params_unnamed_no_stocks = []
   \<and> toasts (runBacktest (Some ''u1'') params_unnamed_no_stocks (Some ''b1'') empty_page)
       = [toast_name_required]
   \<and> toast_name_required \<noteq> toast_no_stocks"
  by (simp add: runBacktest_def params_unnamed_no_stocks_def empty_page_def
      toast_name_required_def toast_no_stocks_def)


















end
